theory Spec2Isabelle
  imports Complex_Main "HOL-Library.Multiset"
begin

section \<open>Data model\<close>

text \<open>
  The estimation engine of the repository (package \<open>estimator\<close>, with the response
  validation of package \<open>ai\<close>) is embedded function by function.

  Conventions of the embedding:
  \<^item> Go's \<open>float64\<close> is modelled by \<open>real\<close>: sums, products and quotients are exact.
  \<^item> Go's \<open>int\<close> is modelled by \<open>int\<close>; no computation of the engine comes near 64 bits.
  \<^item> Go strings are \<open>string\<close>s, one \<open>char\<close> per byte. The text functions of the standard
    library (\<open>strings.ToLower\<close>, \<open>strings.TrimSpace\<close>, \<open>strings.Fields\<close>, the \<open>unicode\<close>
    classes) are written out for ASCII text; a byte above 127 is in no class and has no
    lower case.
  \<^item> A value of type \<open>*HistoricalTask\<close> is an optional address (\<open>None\<close> is \<open>nil\<close>) into a
    heap of records, so that two entries with equal fields remain different entries.
  \<^item> A run-time panic (nil dereference, slice bounds) is a value \<open>Inl e\<close>.
\<close>

datatype error = NilDereference | SliceBounds

text \<open>
  A value of type \<open>interface{}\<close> stored under a custom field. The engine inspects such a
  value only through \<open>toString\<close>: a string is kept, \<open>nil\<close> is recognised, and every other
  value is rendered with \<open>fmt.Sprintf("%v", val)\<close>. A value that is neither is therefore
  represented by that rendering.
\<close>

datatype field_value = FNil | FString string | FOther string

text \<open>
  A Go \<open>map[string]interface{}\<close> is an association list; the map it denotes binds each
  key to the first value listed for it (\<open>entries\<close>).
\<close>

type_synonym fields = "(string \<times> field_value) list"

fun entries :: "('k \<times> 'v) list \<Rightarrow> ('k \<times> 'v) list" where
  "entries [] = []"
| "entries (kv # rest) = kv # entries (filter (\<lambda>kv'. fst kv' \<noteq> fst kv) rest)"

record Label =
  Name :: string

record Issue =
  Title :: string
  Body :: string
  State :: string
  Labels :: "Label list"
  CustomFields :: fields

record Task =
  Title :: string
  Description :: string
  Labels :: "string list"
  Context :: fields

record HistoricalTask =
  Issue :: "Issue option"
  ActualHours :: real
  EstimatedSize :: string
  StoryPoints :: real

type_synonym addr = nat
type_synonym hist_ptr = "addr option"
type_synonym heap = "addr \<Rightarrow> HistoricalTask"

record SimilarityMatch =
  Task :: hist_ptr
  Similarity :: real
  Matches :: "string list"

record EstimationConfig =
  MaxSimilarTasks :: int
  MinSimilarTasks :: int
  MinSimilarityThreshold :: real
  StratifiedSamplesPerSize :: int

definition DefaultEstimationConfig :: EstimationConfig where
  "DefaultEstimationConfig =
     \<lparr>MaxSimilarTasks = 15, MinSimilarTasks = 10,
      MinSimilarityThreshold = 0.3, StratifiedSamplesPerSize = 2\<rparr>"

record SimilarityContext =
  ThresholdUsed :: real
  ThresholdsTriedCount :: int
  TotalTasksScanned :: int
  MatchesFound :: int
  HighestSimilarity :: real

section \<open>Text functions of the standard library, for ASCII\<close>

definition upper_letters :: string where
  "upper_letters = ''ABCDEFGHIJKLMNOPQRSTUVWXYZ''"

definition lower_letters :: string where
  "lower_letters = ''abcdefghijklmnopqrstuvwxyz''"

definition digit_chars :: string where
  "digit_chars = ''0123456789''"

definition space_chars :: string where
  "space_chars = [CHR 0x09, CHR 0x0A, CHR 0x0B, CHR 0x0C, CHR 0x0D, CHR 0x20]"

definition IsLetter :: "char \<Rightarrow> bool" where
  "IsLetter c = (c \<in> set upper_letters \<or> c \<in> set lower_letters)"

definition IsNumber :: "char \<Rightarrow> bool" where
  "IsNumber c = (c \<in> set digit_chars)"

definition IsSpace :: "char \<Rightarrow> bool" where
  "IsSpace c = (c \<in> set space_chars)"

definition toLowerChar :: "char \<Rightarrow> char" where
  "toLowerChar c = (case map_of (zip upper_letters lower_letters) c of
                      Some l \<Rightarrow> l | None \<Rightarrow> c)"

definition ToLower :: "string \<Rightarrow> string" where
  "ToLower s = map toLowerChar s"

definition TrimSpace :: "string \<Rightarrow> string" where
  "TrimSpace s = rev (dropWhile IsSpace (rev (dropWhile IsSpace s)))"

text \<open>\<open>strings.Fields\<close>: the maximal runs of non-space characters, in order.\<close>

fun Fields_aux :: "string \<Rightarrow> string \<Rightarrow> string list" where
  "Fields_aux cur [] = (if cur = [] then [] else [rev cur])"
| "Fields_aux cur (c # cs) =
     (if IsSpace c then (if cur = [] then Fields_aux [] cs else rev cur # Fields_aux [] cs)
      else Fields_aux (c # cur) cs)"

definition Fields :: "string \<Rightarrow> string list" where
  "Fields s = Fields_aux [] s"

section \<open>The similarity scorer (similarity.go)\<close>

definition normalizeText :: "string \<Rightarrow> string" where
  "normalizeText text =
     filter (\<lambda>r. IsLetter r \<or> IsNumber r \<or> IsSpace r) (TrimSpace (ToLower text))"

text \<open>
  \<open>extractWords\<close> collects the words in a Go map and returns its keys, in the map's
  iteration order, which Go leaves unspecified. The model returns them in order of first
  occurrence; the only caller, \<open>jaccardSimilarity\<close>, does not depend on the order.
\<close>

definition extractWords :: "string \<Rightarrow> string list" where
  "extractWords text =
     remdups (filter (\<lambda>word. length word > 2)
                (map (\<lambda>word. ToLower (TrimSpace word)) (Fields text)))"

definition jaccardSimilarity :: "string list \<Rightarrow> string list \<Rightarrow> real" where
  "jaccardSimilarity set1 set2 =
     (if length set1 = 0 \<and> length set2 = 0 then 1.0
      else
        let map1 = remdups (map ToLower set1);
            map2 = remdups (map ToLower set2);
            intersection = int (length (filter (\<lambda>item. item \<in> set map2) map1));
            union = int (length map1) + int (length map2) - intersection
        in if union = 0 then 0.0 else of_int intersection / of_int union)"

definition calculateTextSimilarity :: "string \<Rightarrow> string \<Rightarrow> real" where
  "calculateTextSimilarity text1 text2 =
     (let t1 = normalizeText text1; t2 = normalizeText text2
      in if t1 = [] \<or> t2 = [] then 0.0
         else jaccardSimilarity (extractWords t1) (extractWords t2))"

definition calculateLabelSimilarity :: "string list \<Rightarrow> string list \<Rightarrow> real" where
  "calculateLabelSimilarity labels1 labels2 =
     (if length labels1 = 0 \<and> length labels2 = 0 then 1.0
      else if length labels1 = 0 \<or> length labels2 = 0 then 0.0
      else jaccardSimilarity labels1 labels2)"

definition toString :: "field_value \<Rightarrow> string" where
  "toString v = (case v of
       FNil \<Rightarrow> []
     | FString val \<Rightarrow> val
     | FOther rendering \<Rightarrow> TrimSpace (ToLower rendering))"

definition compareValues :: "field_value \<Rightarrow> field_value \<Rightarrow> bool" where
  "compareValues v1 v2 =
     (ToLower (TrimSpace (toString v1)) = ToLower (TrimSpace (toString v2)))"

definition calculateContextSimilarity :: "fields \<Rightarrow> fields \<Rightarrow> real" where
  "calculateContextSimilarity context1 context2 =
     (if length (entries context1) = 0 \<and> length (entries context2) = 0 then 1.0
      else if length (entries context1) = 0 \<or> length (entries context2) = 0 then 0.0
      else
        let matches = int (length (filter
                        (\<lambda>(key, val1). case map_of context2 key of
                                           None \<Rightarrow> False
                                         | Some val2 \<Rightarrow> compareValues val1 val2)
                        (entries context1)));
            total = int (length (entries context1))
                    + int (length (filter (\<lambda>(key, val2). map_of context1 key = None)
                                     (entries context2)))
        in if total = 0 then 0.0 else of_int matches / of_int total)"

definition extractLabels :: "Issue \<Rightarrow> string list" where
  "extractLabels issue = map Name (Issue.Labels issue)"

text \<open>
  \<open>CalculateSimilarity\<close>: \<open>totalScore\<close> and \<open>totalWeight\<close> are threaded through the four
  blocks of the source in their order.
\<close>

definition CalculateSimilarity :: "heap \<Rightarrow> Task \<Rightarrow> hist_ptr \<Rightarrow> real" where
  "CalculateSimilarity hp task historical =
     (case historical of
        None \<Rightarrow> 0.0
      | Some a \<Rightarrow>
         (case HistoricalTask.Issue (hp a) of
            None \<Rightarrow> 0.0
          | Some issue \<Rightarrow>
             let titleScore = calculateTextSimilarity (Task.Title task) (Issue.Title issue);
                 totalScore = titleScore * 0.4;
                 totalWeight = 0.4;
                 (totalScore, totalWeight) =
                   (if Description task \<noteq> [] \<and> Body issue \<noteq> []
                    then (totalScore
                            + calculateTextSimilarity (Description task) (Body issue) * 0.3,
                          totalWeight + 0.3)
                    else (totalScore, totalWeight));
                 labelScore = calculateLabelSimilarity (Task.Labels task) (extractLabels issue);
                 totalScore = totalScore + labelScore * 0.2;
                 totalWeight = totalWeight + 0.2;
                 (totalScore, totalWeight) =
                   (if length (entries (Context task)) > 0
                       \<and> length (entries (CustomFields issue)) > 0
                    then (totalScore
                            + calculateContextSimilarity (Context task) (CustomFields issue) * 0.1,
                          totalWeight + 0.1)
                    else (totalScore, totalWeight))
             in if totalWeight > 0 then totalScore / totalWeight else 0.0))"

section \<open>Range of the sub-scores\<close>

lemma jaccardSimilarity_range:
  "0 \<le> jaccardSimilarity set1 set2 \<and> jaccardSimilarity set1 set2 \<le> 1"
proof -
  define map1 where "map1 = remdups (map ToLower set1)"
  define map2 where "map2 = remdups (map ToLower set2)"
  define k where "k = length (filter (\<lambda>item. item \<in> set map2) map1)"
  have k1: "k \<le> length map1"
    unfolding k_def by simp
  have "distinct (filter (\<lambda>item. item \<in> set map2) map1)"
    unfolding map1_def by simp
  then have "card (set (filter (\<lambda>item. item \<in> set map2) map1))
               = length (filter (\<lambda>item. item \<in> set map2) map1)"
    by (rule distinct_card)
  then have "k = card (set (filter (\<lambda>item. item \<in> set map2) map1))"
    unfolding k_def by (rule sym)
  also have "\<dots> \<le> card (set map2)"
    by (rule card_mono) auto
  also have "\<dots> = length map2"
    unfolding map2_def by (rule distinct_card) simp
  finally have k2: "k \<le> length map2" .
  have le: "int k \<le> int (length map1) + int (length map2) - int k"
    using k1 k2 by linarith
  have nonneg: "(0::int) \<le> int (length map1) + int (length map2) - int k"
    using k1 by linarith
  have "0 \<le> real_of_int (int k) / real_of_int (int (length map1) + int (length map2) - int k)"
    using nonneg by simp
  moreover have "int (length map1) + int (length map2) - int k \<noteq> 0 \<Longrightarrow>
      real_of_int (int k) / real_of_int (int (length map1) + int (length map2) - int k) \<le> 1"
    using le nonneg by (simp add: divide_le_eq_1)
  ultimately show ?thesis
    unfolding jaccardSimilarity_def Let_def map1_def [symmetric] map2_def [symmetric]
      k_def [symmetric]
    by auto
qed

lemma calculateTextSimilarity_range:
  "0 \<le> calculateTextSimilarity text1 text2 \<and> calculateTextSimilarity text1 text2 \<le> 1"
  using jaccardSimilarity_range by (simp add: calculateTextSimilarity_def Let_def)

lemma calculateLabelSimilarity_range:
  "0 \<le> calculateLabelSimilarity labels1 labels2 \<and> calculateLabelSimilarity labels1 labels2 \<le> 1"
  using jaccardSimilarity_range by (simp add: calculateLabelSimilarity_def)

lemma calculateContextSimilarity_range:
  "0 \<le> calculateContextSimilarity context1 context2
   \<and> calculateContextSimilarity context1 context2 \<le> 1"
proof -
  define m where "m = length (filter
                        (\<lambda>(key, val1). case map_of context2 key of
                                           None \<Rightarrow> False
                                         | Some val2 \<Rightarrow> compareValues val1 val2)
                        (entries context1))"
  define e where "e = length (filter (\<lambda>(key, val2). map_of context1 key = None)
                                     (entries context2))"
  have m: "m \<le> length (entries context1)"
    unfolding m_def by simp
  have "0 \<le> real_of_int (int m) / real_of_int (int (length (entries context1)) + int e)"
    by simp
  moreover have "int (length (entries context1)) + int e \<noteq> 0 \<Longrightarrow>
      real_of_int (int m) / real_of_int (int (length (entries context1)) + int e) \<le> 1"
    using m by (simp add: divide_le_eq_1)
  ultimately show ?thesis
    unfolding calculateContextSimilarity_def Let_def m_def [symmetric] e_def [symmetric]
    by auto
qed

lemma entries_Nil_iff: "length (entries c) = 0 \<longleftrightarrow> c = []"
  by (cases c) simp_all

text \<open>The score of an entry that has a source record, with the threading unfolded.\<close>

lemma CalculateSimilarity_Some:
  assumes "HistoricalTask.Issue (hp a) = Some issue"
  shows "CalculateSimilarity hp task (Some a) =
     (calculateTextSimilarity (Task.Title task) (Issue.Title issue) * 0.4
      + (if Description task \<noteq> [] \<and> Body issue \<noteq> []
         then calculateTextSimilarity (Description task) (Body issue) * 0.3 else 0)
      + calculateLabelSimilarity (Task.Labels task) (extractLabels issue) * 0.2
      + (if Context task \<noteq> [] \<and> CustomFields issue \<noteq> []
         then calculateContextSimilarity (Context task) (CustomFields issue) * 0.1 else 0))
     / (0.4 + (if Description task \<noteq> [] \<and> Body issue \<noteq> [] then 0.3 else 0) + 0.2
        + (if Context task \<noteq> [] \<and> CustomFields issue \<noteq> [] then 0.1 else 0))"
  using assms entries_Nil_iff [of "Context task"] entries_Nil_iff [of "CustomFields issue"]
  by (simp add: CalculateSimilarity_def Let_def)

lemma weighted_quotient_range:
  fixes t d l c :: real
  assumes "0 \<le> t \<and> t \<le> 1" "0 \<le> d \<and> d \<le> 1" "0 \<le> l \<and> l \<le> 1" "0 \<le> c \<and> c \<le> 1"
  shows "0 \<le> (t * 0.4 + (if D then d * 0.3 else 0) + l * 0.2 + (if C then c * 0.1 else 0))
              / (0.4 + (if D then 0.3 else 0) + 0.2 + (if C then 0.1 else 0))
         \<and> (t * 0.4 + (if D then d * 0.3 else 0) + l * 0.2 + (if C then c * 0.1 else 0))
              / (0.4 + (if D then 0.3 else 0) + 0.2 + (if C then 0.1 else 0)) \<le> 1"
proof -
  let ?n = "t * 0.4 + (if D then d * 0.3 else 0) + l * 0.2 + (if C then c * 0.1 else 0)"
  let ?w = "0.4 + (if D then 0.3 else 0) + 0.2 + (if C then 0.1 else (0::real))"
  have w: "0 < ?w" by simp
  have n0: "0 \<le> ?n" using assms by simp
  have n1: "?n \<le> ?w" using assms by (cases D; cases C) simp_all
  from w n0 n1 show ?thesis by (simp add: divide_le_eq_1)
qed

lemma CalculateSimilarity_range:
  "0 \<le> CalculateSimilarity hp task historical \<and> CalculateSimilarity hp task historical \<le> 1"
proof (cases historical)
  case None
  then show ?thesis by (simp add: CalculateSimilarity_def)
next
  case (Some a)
  show ?thesis
  proof (cases "HistoricalTask.Issue (hp a)")
    case None
    with Some show ?thesis by (simp add: CalculateSimilarity_def)
  next
    case (Some issue)
    show ?thesis
      unfolding \<open>historical = Some a\<close>
        CalculateSimilarity_Some [of hp a issue task, OF Some]
      by (rule weighted_quotient_range)
        (rule calculateTextSimilarity_range calculateLabelSimilarity_range
              calculateContextSimilarity_range)+
  qed
qed

section \<open>Examples\<close>

definition example_issue :: Issue where
  "example_issue =
     \<lparr>Issue.Title = ''Implement login page'', Body = ''Create the login form'',
      State = ''closed'', Labels = [\<lparr>Name = ''frontend''\<rparr>],
      CustomFields = [(''Priority'', FString ''High'')]\<rparr>"

definition example_task :: Task where
  "example_task =
     \<lparr>Task.Title = ''Implement logout page'', Description = [],
      Labels = [''Frontend''], Context = []\<rparr>"

definition example_heap :: heap where
  "example_heap a =
     (if a = 0 then \<lparr>Issue = Some example_issue, ActualHours = 6,
                      EstimatedSize = ''M'', StoryPoints = 5\<rparr>
      else \<lparr>Issue = None, ActualHours = 3, EstimatedSize = ''S'', StoryPoints = 2\<rparr>)"

section \<open>Claims about the similarity scorer\<close>

text \<open>
  C1. For every task and every historical entry, also one whose source record is absent
  (a nil entry or an entry with a nil \<open>Issue\<close>), the score \<open>CalculateSimilarity\<close> lies in
  the interval from 0 to 1; for an entry without source record it is exactly 0. The
  function has no failing operation: it is total and returns a number.
\<close>

theorem C1_similarity_in_unit_interval:
  "0 \<le> CalculateSimilarity hp task historical
   \<and> CalculateSimilarity hp task historical \<le> 1
   \<and> CalculateSimilarity hp task None = 0
   \<and> (HistoricalTask.Issue (hp a) = None \<longrightarrow> CalculateSimilarity hp task (Some a) = 0)"
  using CalculateSimilarity_range [of hp task historical]
  by (simp add: CalculateSimilarity_def)

theorem C1_similarity_in_unit_interval_witness:
  "HistoricalTask.Issue (example_heap 1) = None
   \<and> CalculateSimilarity example_heap example_task (Some 1) = 0
   \<and> 0 \<le> CalculateSimilarity example_heap example_task (Some 0)
   \<and> CalculateSimilarity example_heap example_task (Some 0) \<le> 1"
  using C1_similarity_in_unit_interval [of example_heap example_task "Some 0" 1]
  by (simp add: example_heap_def)

text \<open>
  The sub-scores of a pair with their weights, title 0.4, description 0.3, labels 0.2 and
  context 0.1, for a choice of the sub-scores that are applied, and their weighted mean:
  the weighted sum divided by the sum of the weights applied.
\<close>

definition weighted_subscores ::
  "bool \<Rightarrow> bool \<Rightarrow> bool \<Rightarrow> bool \<Rightarrow> Task \<Rightarrow> Issue \<Rightarrow> (real \<times> real) list"
where
  "weighted_subscores title description labels context task issue =
     (if title
      then [(0.4, calculateTextSimilarity (Task.Title task) (Issue.Title issue))] else [])
     @ (if description
        then [(0.3, calculateTextSimilarity (Description task) (Body issue))] else [])
     @ (if labels
        then [(0.2, calculateLabelSimilarity (Task.Labels task) (extractLabels issue))] else [])
     @ (if context
        then [(0.1, calculateContextSimilarity (Context task) (CustomFields issue))] else [])"

definition weighted_mean :: "(real \<times> real) list \<Rightarrow> real" where
  "weighted_mean ws = (\<Sum>(w, s) \<leftarrow> ws. w * s) / (\<Sum>(w, s) \<leftarrow> ws. w)"

text \<open>The input of a sub-score is present on both sides.\<close>

definition titles_present :: "Task \<Rightarrow> Issue \<Rightarrow> bool" where
  "titles_present task issue \<longleftrightarrow> Task.Title task \<noteq> [] \<and> Issue.Title issue \<noteq> []"

definition descriptions_present :: "Task \<Rightarrow> Issue \<Rightarrow> bool" where
  "descriptions_present task issue \<longleftrightarrow> Description task \<noteq> [] \<and> Body issue \<noteq> []"

definition labels_present :: "Task \<Rightarrow> Issue \<Rightarrow> bool" where
  "labels_present task issue \<longleftrightarrow> Task.Labels task \<noteq> [] \<and> extractLabels issue \<noteq> []"

definition contexts_present :: "Task \<Rightarrow> Issue \<Rightarrow> bool" where
  "contexts_present task issue \<longleftrightarrow> Context task \<noteq> [] \<and> CustomFields issue \<noteq> []"

text \<open>
  The rule of the specification: each of the four sub-scores is skipped when its input is
  absent on either side, and the others are re-normalised.
\<close>

definition spec_skipping_subscores :: "Task \<Rightarrow> Issue \<Rightarrow> (real \<times> real) list" where
  "spec_skipping_subscores task issue =
     weighted_subscores (titles_present task issue) (descriptions_present task issue)
       (labels_present task issue) (contexts_present task issue) task issue"

text \<open>A task with the title of \<open>example_issue\<close> and neither labels, description nor context.\<close>

definition unlabelled_task :: Task where
  "unlabelled_task =
     \<lparr>Task.Title = ''Implement login page'', Description = [], Labels = [], Context = []\<rparr>"

text \<open>
  C8, the rule as the specification words it, does not hold for the labels: a task without
  labels is compared with an issue that has the same title and one label. The label
  sub-score is not skipped but counted as 0 with its weight 0.2, so the score is
  \<open>0.4 / 0.6\<close>; skipping it would leave the title alone and give 1.
\<close>

theorem C8_absent_labels_zero_filled:
  "CalculateSimilarity example_heap unlabelled_task (Some 0) = 2 / 3
   \<and> weighted_mean (spec_skipping_subscores unlabelled_task example_issue) = 1"
  by code_simp

text \<open>
  C8. For a task and a historical entry with a source record, the score is the sum of the
  applied sub-scores, weighted title 0.4, description 0.3, labels 0.2 and context 0.1,
  divided by the sum of the weights applied. The description sub-score is skipped when
  either description is empty, and the context sub-score when either context map is
  empty. The title and the label sub-scores are always applied, with their weights: an
  empty title on either side gives the title sub-score 0, two empty label sets give the
  label sub-score 1, and one empty label set gives 0. When titles and labels are present
  on both sides, the score is the one of the rule that skips every sub-score with absent
  input.
\<close>

theorem C8_weighted_mean_of_applied_subscores:
  assumes "HistoricalTask.Issue (hp a) = Some issue"
  shows "CalculateSimilarity hp task (Some a)
           = weighted_mean (weighted_subscores True (descriptions_present task issue)
                              True (contexts_present task issue) task issue)
         \<and> calculateTextSimilarity [] other = 0
         \<and> calculateTextSimilarity other [] = 0
         \<and> calculateLabelSimilarity [] [] = 1
         \<and> calculateLabelSimilarity [] (l # ls) = 0
         \<and> calculateLabelSimilarity (l # ls) [] = 0
         \<and> (titles_present task issue \<and> labels_present task issue \<longrightarrow>
               CalculateSimilarity hp task (Some a)
                 = weighted_mean (spec_skipping_subscores task issue))"
proof -
  have score: "CalculateSimilarity hp task (Some a)
                 = weighted_mean (weighted_subscores True (descriptions_present task issue)
                                    True (contexts_present task issue) task issue)"
    using assms
    by (simp add: CalculateSimilarity_Some weighted_mean_def weighted_subscores_def
          descriptions_present_def contexts_present_def algebra_simps)
  have titles: "calculateTextSimilarity [] other = 0" "calculateTextSimilarity other [] = 0"
    by (simp_all add: calculateTextSimilarity_def normalizeText_def ToLower_def TrimSpace_def)
  have labels: "calculateLabelSimilarity [] [] = 1" "calculateLabelSimilarity [] (l # ls) = 0"
    "calculateLabelSimilarity (l # ls) [] = 0"
    by (simp_all add: calculateLabelSimilarity_def)
  have "CalculateSimilarity hp task (Some a)
          = weighted_mean (spec_skipping_subscores task issue)"
    if "titles_present task issue \<and> labels_present task issue"
    using that score by (simp add: spec_skipping_subscores_def)
  with score titles labels show ?thesis
    by blast
qed

theorem C8_weighted_mean_of_applied_subscores_witness:
  "HistoricalTask.Issue (example_heap 0) = Some example_issue
   \<and> titles_present example_task example_issue
   \<and> labels_present example_task example_issue
   \<and> CalculateSimilarity example_heap example_task (Some 0)
     = weighted_mean (spec_skipping_subscores example_task example_issue)"
proof -
  have src: "HistoricalTask.Issue (example_heap 0) = Some example_issue"
    by (simp add: example_heap_def)
  have present: "titles_present example_task example_issue"
    "labels_present example_task example_issue"
    by (simp_all add: titles_present_def labels_present_def example_task_def
          example_issue_def extractLabels_def)
  from C8_weighted_mean_of_applied_subscores [of example_heap 0 example_issue example_task, OF src]
    present src
  show ?thesis
    by blast
qed

section \<open>Parsing and validating the provider's response (prompts.go)\<close>

record EstimationResponse =
  EstimatedHours :: real
  EstimatedSize :: string
  StoryPoints :: real
  ConfidenceScore :: real
  Reasoning :: string
  Assumptions :: "string list"
  Risks :: "string list"
  RecommendedAction :: string

text \<open>The two error returns of \<open>ParseEstimationJSON\<close>, with the wrapped message.\<close>

datatype parse_error = FailedToParse string | InvalidResponse string

text \<open>\<open>strings.Split\<close> and \<open>strings.Join\<close> with a one-character separator.\<close>

fun Split_aux :: "char \<Rightarrow> string \<Rightarrow> string \<Rightarrow> string list" where
  "Split_aux sep cur [] = [rev cur]"
| "Split_aux sep cur (c # cs) =
     (if c = sep then rev cur # Split_aux sep [] cs else Split_aux sep (c # cur) cs)"

definition Split :: "string \<Rightarrow> char \<Rightarrow> string list" where
  "Split s sep = Split_aux sep [] s"

fun Join :: "string list \<Rightarrow> char \<Rightarrow> string" where
  "Join [] sep = []"
| "Join [l] sep = l"
| "Join (l # ls) sep = l @ sep # Join ls sep"

definition HasPrefix :: "string \<Rightarrow> string \<Rightarrow> bool" where
  "HasPrefix s prefix = (take (length prefix) s = prefix)"

text \<open>
  The brace-matching loop of \<open>extractJSONFromMarkdown\<close>, started at the first opening
  brace: \<open>scan_braces braceCount seen rest\<close> returns the text up to and including the
  brace that brings the count back to zero, if there is one.
\<close>

fun scan_braces :: "int \<Rightarrow> string \<Rightarrow> string \<Rightarrow> string option" where
  "scan_braces braceCount seen [] = None"
| "scan_braces braceCount seen (c # cs) =
     (if c = CHR ''{'' then scan_braces (braceCount + 1) (c # seen) cs
      else if c = CHR ''}'' then
        (if braceCount - 1 = 0 then Some (rev (c # seen))
         else scan_braces (braceCount - 1) (c # seen) cs)
      else scan_braces braceCount (c # seen) cs)"

definition extractJSONFromMarkdown :: "string \<Rightarrow> string" where
  "extractJSONFromMarkdown text0 =
     (let text = TrimSpace text0;
          text = (if HasPrefix text ''```'' then
                    (let lines = Split text (CHR 0x0A)
                     in if length lines > 2
                        then Join (takeWhile (\<lambda>line. TrimSpace line \<noteq> ''```'') (tl lines))
                                  (CHR 0x0A)
                        else text)
                  else text);
          text = (case scan_braces 0 [] (dropWhile (\<lambda>c. c \<noteq> CHR ''{'') text) of
                    Some object \<Rightarrow> object
                  | None \<Rightarrow> text)
      in TrimSpace text)"

definition validSizes :: "string list" where
  "validSizes = [''XS'', ''S'', ''M'', ''L'', ''XL'']"

text \<open>\<open>validateEstimationResponse\<close> returns the message of the error, or \<open>None\<close> for \<open>nil\<close>.\<close>

definition validateEstimationResponse :: "EstimationResponse \<Rightarrow> string option" where
  "validateEstimationResponse resp =
     (if EstimatedHours resp < 0 then Some ''estimated_hours must be non-negative''
      else if EstimationResponse.StoryPoints resp < 0
        then Some ''story_points must be non-negative''
      else if ConfidenceScore resp < 0 \<or> ConfidenceScore resp > 1
        then Some ''confidence_score must be between 0.0 and 1.0''
      else if EstimationResponse.EstimatedSize resp \<noteq> []
              \<and> EstimationResponse.EstimatedSize resp \<notin> set validSizes
        then Some ''estimated_size must be one of: XS, S, M, L, XL''
      else if Reasoning resp = [] then Some ''reasoning is required''
      else None)"

text \<open>
  \<open>json.Unmarshal\<close> into an \<open>EstimationResponse\<close> belongs to the standard library; it is
  the parameter \<open>unmarshal\<close>, which returns the decoded response or the decoder's message.
\<close>

definition ParseEstimationJSON ::
  "(string \<Rightarrow> string + EstimationResponse) \<Rightarrow> string \<Rightarrow> parse_error + EstimationResponse"
where
  "ParseEstimationJSON unmarshal jsonStr =
     (case unmarshal (extractJSONFromMarkdown jsonStr) of
        Inl err \<Rightarrow> Inl (FailedToParse err)
      | Inr response \<Rightarrow>
         (case validateEstimationResponse response of
            Some err \<Rightarrow> Inl (InvalidResponse err)
          | None \<Rightarrow> Inr response))"

definition zero_hours_response :: EstimationResponse where
  "zero_hours_response =
     \<lparr>EstimatedHours = 0, EstimatedSize = ''M'', StoryPoints = 1, ConfidenceScore = 0.5,
      Reasoning = ''trivial change'', Assumptions = [], Risks = [],
      RecommendedAction = []\<rparr>"

definition negative_hours_response :: EstimationResponse where
  "negative_hours_response =
     \<lparr>EstimatedHours = - 1, EstimatedSize = ''M'', StoryPoints = 5, ConfidenceScore = 0.75,
      Reasoning = ''some reasoning'', Assumptions = [], Risks = [],
      RecommendedAction = []\<rparr>"

definition fenced_payload :: string where
  "fenced_payload =
     ''```json'' @ [CHR 0x0A] @ ''{\"estimated_hours\": -1}'' @ [CHR 0x0A] @ ''```''"

definition example_unmarshal :: "string \<Rightarrow> string + EstimationResponse" where
  "example_unmarshal s =
     (if s = ''{\"estimated_hours\": -1}'' then Inr negative_hours_response
      else Inl ''unexpected input'')"

lemma validateEstimationResponse_None_iff:
  "validateEstimationResponse resp = None \<longleftrightarrow>
     0 \<le> EstimatedHours resp \<and> 0 \<le> EstimationResponse.StoryPoints resp
     \<and> 0 \<le> ConfidenceScore resp \<and> ConfidenceScore resp \<le> 1
     \<and> (EstimationResponse.EstimatedSize resp = []
          \<or> EstimationResponse.EstimatedSize resp \<in> set validSizes)
     \<and> Reasoning resp \<noteq> []"
  by (auto simp: validateEstimationResponse_def)

lemma extract_fenced_payload:
  "extractJSONFromMarkdown fenced_payload = ''{\"estimated_hours\": -1}''"
  by (simp add: extractJSONFromMarkdown_def fenced_payload_def TrimSpace_def IsSpace_def
        space_chars_def HasPrefix_def Split_def Let_def)

text \<open>
  C3 as stated fails: a response with zero hours is non-positive, yet it passes validation
  and is returned.
\<close>

theorem C3_zero_hours_accepted:
  "ParseEstimationJSON (\<lambda>s. Inr zero_hours_response) ''{}'' = Inr zero_hours_response"
  by (simp add: ParseEstimationJSON_def validateEstimationResponse_def validSizes_def
        zero_hours_response_def)

text \<open>
  C3, amended. When the payload decodes to a response, parsing fails exactly when the
  hours are negative, the story points are negative, the confidence is outside the
  interval from 0 to 1, the size code is neither empty nor one of XS, S, M, L, XL, or the
  reasoning is empty; otherwise the decoded response is returned as it is. A payload that
  does not decode fails as well. In particular hours of -1 always give an error and never
  a changed value.
\<close>

theorem C3_parse_fails_iff_invalid:
  "((\<exists>e. ParseEstimationJSON unmarshal jsonStr = Inl e) \<longleftrightarrow>
      (case unmarshal (extractJSONFromMarkdown jsonStr) of
         Inl msg \<Rightarrow> True
       | Inr resp \<Rightarrow>
           EstimatedHours resp < 0 \<or> EstimationResponse.StoryPoints resp < 0
           \<or> ConfidenceScore resp < 0 \<or> 1 < ConfidenceScore resp
           \<or> (EstimationResponse.EstimatedSize resp \<noteq> []
               \<and> EstimationResponse.EstimatedSize resp \<notin> set validSizes)
           \<or> Reasoning resp = []))
   \<and> (ParseEstimationJSON unmarshal jsonStr = Inr r \<longrightarrow>
        unmarshal (extractJSONFromMarkdown jsonStr) = Inr r)
   \<and> (unmarshal (extractJSONFromMarkdown jsonStr) = Inr resp \<and> EstimatedHours resp = - 1 \<longrightarrow>
        ParseEstimationJSON unmarshal jsonStr
          = Inl (InvalidResponse ''estimated_hours must be non-negative''))"
proof (cases "unmarshal (extractJSONFromMarkdown jsonStr)")
  case (Inl msg)
  then show ?thesis by (simp add: ParseEstimationJSON_def)
next
  case (Inr decoded)
  have neg: "EstimatedHours decoded = - 1 \<Longrightarrow>
      validateEstimationResponse decoded = Some ''estimated_hours must be non-negative''"
    by (simp add: validateEstimationResponse_def)
  show ?thesis
  proof (cases "validateEstimationResponse decoded")
    case None
    with Inr validateEstimationResponse_None_iff [of decoded] neg show ?thesis
      by (auto simp: ParseEstimationJSON_def)
  next
    case (Some e)
    with Inr validateEstimationResponse_None_iff [of decoded] neg show ?thesis
      by (auto simp: ParseEstimationJSON_def not_le)
  qed
qed

theorem C3_parse_fails_iff_invalid_witness:
  "example_unmarshal (extractJSONFromMarkdown fenced_payload) = Inr negative_hours_response
   \<and> EstimatedHours negative_hours_response = - 1
   \<and> ParseEstimationJSON example_unmarshal fenced_payload
       = Inl (InvalidResponse ''estimated_hours must be non-negative'')
   \<and> ParseEstimationJSON (\<lambda>s. Inr zero_hours_response) ''{}'' = Inr zero_hours_response
   \<and> (\<lambda>s. Inr zero_hours_response) (extractJSONFromMarkdown ''{}'')
       = (Inr zero_hours_response :: string + EstimationResponse)"
  using C3_parse_fails_iff_invalid
    [of example_unmarshal fenced_payload negative_hours_response negative_hours_response]
    C3_parse_fails_iff_invalid
    [of "\<lambda>s. Inr zero_hours_response" "''{}''" zero_hours_response zero_hours_response]
  by (simp add: extract_fenced_payload example_unmarshal_def negative_hours_response_def
        ParseEstimationJSON_def validateEstimationResponse_def validSizes_def
        zero_hours_response_def)

section \<open>The exchange sort of the engine\<close>

text \<open>
  The engine sorts with one nested loop, written out three times in the source
  (\<open>sortBySimilarity\<close>, the hours in \<open>calculateDatasetStatistics\<close>, the tasks with hours in
  \<open>selectEnhancedDataset\<close>):
  \<^verbatim>\<open>
  for i := 0; i < len(xs); i++ {
      for j := i + 1; j < len(xs); j++ {
          if <test on xs[i], xs[j]> { xs[i], xs[j] = xs[j], xs[i] }
      }
  }
  \<close>
  \<open>exchange_inner\<close> is the inner loop from index \<open>j\<close> on, \<open>exchange_outer\<close> the outer loop
  from index \<open>i\<close> on; \<open>swap\<close> is the test, applied to the elements at \<open>i\<close> and \<open>j\<close>. Both
  indices stay below the length wherever the list is read.
\<close>

function exchange_inner :: "('a \<Rightarrow> 'a \<Rightarrow> bool) \<Rightarrow> nat \<Rightarrow> nat \<Rightarrow> 'a list \<Rightarrow> 'a list" where
  "exchange_inner swap i j xs =
     (if j < length xs
      then exchange_inner swap i (j + 1)
             (if swap (xs ! i) (xs ! j) then xs[i := xs ! j, j := xs ! i] else xs)
      else xs)"
  by pat_completeness auto
termination
  by (relation "measure (\<lambda>(swap, i, j, xs). length xs - j)") auto

declare exchange_inner.simps [simp del]

lemma length_exchange_inner [simp]: "length (exchange_inner swap i j xs) = length xs"
  by (induction swap i j xs rule: exchange_inner.induct)
     (subst exchange_inner.simps, simp)

function exchange_outer :: "('a \<Rightarrow> 'a \<Rightarrow> bool) \<Rightarrow> nat \<Rightarrow> 'a list \<Rightarrow> 'a list" where
  "exchange_outer swap i xs =
     (if i < length xs then exchange_outer swap (i + 1) (exchange_inner swap i (i + 1) xs)
      else xs)"
  by pat_completeness auto
termination
  by (relation "measure (\<lambda>(swap, i, xs). length xs - i)") auto

declare exchange_outer.simps [simp del]

definition exchange_sort :: "('a \<Rightarrow> 'a \<Rightarrow> bool) \<Rightarrow> 'a list \<Rightarrow> 'a list" where
  "exchange_sort swap xs = exchange_outer swap 0 xs"

lemma length_exchange_outer [simp]: "length (exchange_outer swap i xs) = length xs"
  by (induction swap i xs rule: exchange_outer.induct)
     (subst exchange_outer.simps, simp)

lemma mset_exchange_inner: "i < j \<Longrightarrow> mset (exchange_inner swap i j xs) = mset xs"
proof (induction swap i j xs rule: exchange_inner.induct)
  case (1 swap i j xs)
  show ?case
  proof (cases "j < length xs")
    case True
    with "1.prems" have "mset (xs[i := xs ! j, j := xs ! i]) = mset xs"
      by (simp add: mset_swap)
    with True "1.IH" "1.prems" show ?thesis
      by (subst exchange_inner.simps) (simp split: if_splits)
  next
    case False
    then show ?thesis by (subst exchange_inner.simps) simp
  qed
qed

lemma mset_exchange_outer: "mset (exchange_outer swap i xs) = mset xs"
  by (induction swap i xs rule: exchange_outer.induct)
     (subst exchange_outer.simps, simp add: mset_exchange_inner)

lemma exchange_inner_prefix:
  "i < j \<Longrightarrow> k < i \<Longrightarrow> exchange_inner swap i j xs ! k = xs ! k"
proof (induction swap i j xs rule: exchange_inner.induct)
  case (1 swap i j xs)
  show ?case
  proof (cases "j < length xs")
    case True
    with "1.IH" "1.prems" show ?thesis
      by (subst exchange_inner.simps) (simp split: if_splits)
  next
    case False
    then show ?thesis by (subst exchange_inner.simps) simp
  qed
qed

definition swap_order :: "('a \<Rightarrow> 'a \<Rightarrow> bool) \<Rightarrow> bool" where
  "swap_order swap \<longleftrightarrow>
     (\<forall>a b c. \<not> swap a b \<longrightarrow> \<not> swap b c \<longrightarrow> \<not> swap a c) \<and> (\<forall>a b. swap a b \<longrightarrow> \<not> swap b a)"

lemma exchange_inner_head:
  "swap_order swap \<Longrightarrow> i < j \<Longrightarrow>
   (\<forall>k. i < k \<and> k < j \<longrightarrow> \<not> swap (xs ! i) (xs ! k)) \<Longrightarrow>
   i < k \<Longrightarrow> k < length xs \<Longrightarrow>
   \<not> swap (exchange_inner swap i j xs ! i) (exchange_inner swap i j xs ! k)"
proof (induction swap i j xs rule: exchange_inner.induct)
  case (1 swap i j xs)
  have trans: "\<And>a b c. \<not> swap a b \<Longrightarrow> \<not> swap b c \<Longrightarrow> \<not> swap a c"
    and asym: "\<And>a b. swap a b \<Longrightarrow> \<not> swap b a"
    using "1.prems"(1) unfolding swap_order_def by blast+
  show ?case
  proof (cases "j < length xs")
    case False
    with "1.prems" show ?thesis
      by (subst (1 2) exchange_inner.simps) simp
  next
    case True
    let ?xs' = "if swap (xs ! i) (xs ! j) then xs[i := xs ! j, j := xs ! i] else xs"
    have len: "length ?xs' = length xs" by simp
    have inv: "\<forall>k. i < k \<and> k < j + 1 \<longrightarrow> \<not> swap (?xs' ! i) (?xs' ! k)"
    proof (intro allI impI)
      fix m assume m: "i < m \<and> m < j + 1"
      show "\<not> swap (?xs' ! i) (?xs' ! m)"
      proof (cases "swap (xs ! i) (xs ! j)")
        case False
        with m "1.prems"(3) show ?thesis
          by (cases "m = j") simp_all
      next
        case sw: True
        from True "1.prems"(2) have i: "i < length xs" by simp
        have head: "?xs' ! i = xs ! j"
          using sw i True "1.prems"(2) by simp
        show ?thesis
        proof (cases "m = j")
          case True
          then have "?xs' ! m = xs ! i"
            using sw \<open>j < length xs\<close> by simp
          with head asym [OF sw] show ?thesis by simp
        next
          case False
          with m have mj: "m < j" by simp
          then have "?xs' ! m = xs ! m"
            using sw m by simp
          moreover have "\<not> swap (xs ! i) (xs ! m)"
            using "1.prems"(3) m mj by simp
          ultimately show ?thesis
            using head trans [OF asym [OF sw]] by simp
        qed
      qed
    qed
    have "\<not> swap (exchange_inner swap i (j + 1) ?xs' ! i) (exchange_inner swap i (j + 1) ?xs' ! k)"
      using "1.IH" [OF True "1.prems"(1) _ inv] "1.prems" len by simp
    then show ?thesis
      using True by (subst (1 2) exchange_inner.simps) simp
  qed
qed

lemma exchange_inner_take:
  "i < j \<Longrightarrow> take i (exchange_inner swap i j xs) = take i xs"
  by (rule nth_equalityI) (simp_all add: exchange_inner_prefix)

lemma exchange_inner_drop:
  assumes "i < j"
  shows "mset (drop i (exchange_inner swap i j xs)) = mset (drop i xs)"
proof -
  let ?ys = "exchange_inner swap i j xs"
  have "mset (take i ?ys) + mset (drop i ?ys) = mset (take i xs) + mset (drop i xs)"
    unfolding union_code append_take_drop_id by (rule mset_exchange_inner [OF assms])
  then show ?thesis
    by (simp add: exchange_inner_take [OF assms])
qed

definition prefix_done :: "('a \<Rightarrow> 'a \<Rightarrow> bool) \<Rightarrow> nat \<Rightarrow> 'a list \<Rightarrow> bool" where
  "prefix_done swap i xs \<longleftrightarrow>
     (\<forall>p q. p < i \<and> p < q \<and> q < length xs \<longrightarrow> \<not> swap (xs ! p) (xs ! q))"

lemma prefix_done_step:
  assumes ord: "swap_order swap" and inv: "prefix_done swap i xs" and i: "i < length xs"
  shows "prefix_done swap (i + 1) (exchange_inner swap i (i + 1) xs)"
  unfolding prefix_done_def
proof (intro allI impI)
  let ?ys = "exchange_inner swap i (i + 1) xs"
  fix p q assume pq: "p < i + 1 \<and> p < q \<and> q < length ?ys"
  show "\<not> swap (?ys ! p) (?ys ! q)"
  proof (cases "p = i")
    case True
    have "\<forall>k. i < k \<and> k < i + 1 \<longrightarrow> \<not> swap (xs ! i) (xs ! k)" by auto
    from exchange_inner_head [OF ord _ this, of q] True pq show ?thesis by simp
  next
    case False
    with pq have p: "p < i" by simp
    then have yp: "?ys ! p = xs ! p"
      by (simp add: exchange_inner_prefix)
    show ?thesis
    proof (cases "q < i")
      case True
      then have "?ys ! q = xs ! q"
        by (simp add: exchange_inner_prefix)
      with yp inv p pq show ?thesis
        by (simp add: prefix_done_def)
    next
      case False
      then have "?ys ! q = drop i ?ys ! (q - i)"
        using pq by simp
      moreover have "q - i < length (drop i ?ys)"
        using pq False by (simp add: less_diff_conv2)
      ultimately have mem: "?ys ! q \<in> set (drop i ?ys)"
        by (metis nth_mem)
      have "set (drop i ?ys) = set (drop i xs)"
        using exchange_inner_drop [of i "i + 1" swap xs] by (metis less_add_one mset_eq_setD)
      with mem have "?ys ! q \<in> set (drop i xs)" by simp
      then obtain r where r: "r < length (drop i xs)" "drop i xs ! r = ?ys ! q"
        by (metis in_set_conv_nth)
      then have "xs ! (i + r) = ?ys ! q" "i + r < length xs"
        by simp_all
      with inv p yp show ?thesis
        unfolding prefix_done_def by (metis trans_less_add1)
    qed
  qed
qed

lemma prefix_done_exchange_outer:
  "swap_order swap \<Longrightarrow> prefix_done swap i xs \<Longrightarrow>
   prefix_done swap (length xs) (exchange_outer swap i xs)"
proof (induction swap i xs rule: exchange_outer.induct)
  case (1 swap i xs)
  show ?case
  proof (cases "i < length xs")
    case True
    with "1.IH" [OF True "1.prems"(1) prefix_done_step [OF "1.prems" True]]
    show ?thesis
      by (subst exchange_outer.simps) simp
  next
    case False
    with "1.prems"(2) show ?thesis
      by (subst exchange_outer.simps) (simp add: prefix_done_def)
  qed
qed

lemma sorted_wrt_exchange_sort:
  assumes "swap_order swap"
  shows "sorted_wrt (\<lambda>a b. \<not> swap a b) (exchange_sort swap xs)"
proof -
  have "prefix_done swap 0 xs" by (simp add: prefix_done_def)
  from prefix_done_exchange_outer [OF assms this]
  show ?thesis
    unfolding exchange_sort_def sorted_wrt_iff_nth_less prefix_done_def by simp
qed

lemma mset_exchange_sort: "mset (exchange_sort swap xs) = mset xs"
  by (simp add: exchange_sort_def mset_exchange_outer)

lemma length_exchange_sort [simp]: "length (exchange_sort swap xs) = length xs"
  by (simp add: exchange_sort_def)

section \<open>The statistics summarizer (estimator.go)\<close>

record CategoryStats =
  Count :: int
  AvgHours :: real
  MinHours :: real
  MaxHours :: real
  TaskTitles :: "string list"

record DatasetStatistics =
  TotalTasks :: int
  ClosedTasks :: int
  AvgHours :: real
  MedianHours :: real
  TasksBySize :: "string \<rightharpoonup> int"
  TasksByCategory :: "string \<rightharpoonup> int"
  CategoryBreakdown :: "string \<rightharpoonup> CategoryStats"
  PercentileHours :: "real list"

text \<open>The local variables of \<open>calculateDatasetStatistics\<close> that its first loop updates.\<close>

record stat_locals =
  totalHours :: real
  hoursCount :: int
  hours :: "real list"
  categoryHours :: "string \<rightharpoonup> real list"
  categoryTitles :: "string \<rightharpoonup> string list"

text \<open>Reading a Go map at a key it lacks gives the zero value.\<close>

definition count_at :: "(string \<rightharpoonup> int) \<Rightarrow> string \<Rightarrow> int" where
  "count_at m k = (case m k of None \<Rightarrow> 0 | Some n \<Rightarrow> n)"

definition list_at :: "(string \<rightharpoonup> 'a list) \<Rightarrow> string \<Rightarrow> 'a list" where
  "list_at m k = (case m k of None \<Rightarrow> [] | Some l \<Rightarrow> l)"

text \<open>The body of the loop over the labels of one entry.\<close>

definition scan_label ::
  "HistoricalTask \<Rightarrow> Issue \<Rightarrow> DatasetStatistics \<times> stat_locals \<Rightarrow> Label
   \<Rightarrow> DatasetStatistics \<times> stat_locals"
where
  "scan_label hist issue sl label =
     (let (stats, loc) = sl;
          stats = stats\<lparr>TasksByCategory :=
                    (TasksByCategory stats)(Name label \<mapsto>
                       count_at (TasksByCategory stats) (Name label) + 1)\<rparr>;
          loc = (if ActualHours hist > 0
                 then loc\<lparr>categoryHours :=
                        (categoryHours loc)(Name label \<mapsto>
                           list_at (categoryHours loc) (Name label) @ [ActualHours hist])\<rparr>
                 else loc);
          loc = (if length (list_at (categoryTitles loc) (Name label)) < 3
                 then loc\<lparr>categoryTitles :=
                        (categoryTitles loc)(Name label \<mapsto>
                           list_at (categoryTitles loc) (Name label) @ [Issue.Title issue])\<rparr>
                 else loc)
      in (stats, loc))"

text \<open>The body of the loop over the historical entries, for an entry that is not nil.\<close>

definition scan_task ::
  "HistoricalTask \<Rightarrow> DatasetStatistics \<times> stat_locals \<Rightarrow> DatasetStatistics \<times> stat_locals"
where
  "scan_task hist sl =
     (let (stats, loc) = sl;
          stats = stats\<lparr>TotalTasks := TotalTasks stats + 1\<rparr>;
          stats = (case HistoricalTask.Issue hist of
                     None \<Rightarrow> stats
                   | Some issue \<Rightarrow>
                       if State issue = ''closed''
                       then stats\<lparr>ClosedTasks := ClosedTasks stats + 1\<rparr> else stats);
          loc = (if ActualHours hist > 0
                 then loc\<lparr>totalHours := totalHours loc + ActualHours hist,
                          hours := hours loc @ [ActualHours hist],
                          hoursCount := hoursCount loc + 1\<rparr>
                 else loc);
          stats = (if HistoricalTask.EstimatedSize hist \<noteq> []
                   then stats\<lparr>TasksBySize :=
                          (TasksBySize stats)(HistoricalTask.EstimatedSize hist \<mapsto>
                             count_at (TasksBySize stats) (HistoricalTask.EstimatedSize hist) + 1)\<rparr>
                   else stats)
      in case HistoricalTask.Issue hist of
           None \<Rightarrow> (stats, loc)
         | Some issue \<Rightarrow> foldl (scan_label hist issue) (stats, loc) (Issue.Labels issue))"

text \<open>The loop itself: reading a field of a nil entry panics.\<close>

fun scan_tasks ::
  "heap \<Rightarrow> DatasetStatistics \<times> stat_locals \<Rightarrow> hist_ptr list
   \<Rightarrow> error + DatasetStatistics \<times> stat_locals"
where
  "scan_tasks hp sl [] = Inr sl"
| "scan_tasks hp sl (None # rest) = Inl NilDereference"
| "scan_tasks hp sl (Some a # rest) = scan_tasks hp (scan_task (hp a) sl) rest"

definition percentiles :: "real list" where
  "percentiles = [0.10, 0.25, 0.50, 0.75, 0.90]"

text \<open>
  The last loop, for one category with at least one hour value: the count, the mean, and
  the running minimum and maximum, both started at the first value.
\<close>

definition category_stats :: "real list \<Rightarrow> string list \<Rightarrow> CategoryStats" where
  "category_stats hoursSlice titles =
     \<lparr>Count = int (length hoursSlice),
      AvgHours = foldl (+) 0 hoursSlice / of_int (int (length hoursSlice)),
      MinHours = foldl (\<lambda>m h. if h < m then h else m) (hd hoursSlice) hoursSlice,
      MaxHours = foldl (\<lambda>m h. if h > m then h else m) (hd hoursSlice) hoursSlice,
      TaskTitles = titles\<rparr>"

definition category_breakdown :: "stat_locals \<Rightarrow> (string \<rightharpoonup> CategoryStats)" where
  "category_breakdown loc =
     (\<lambda>category. case categoryHours loc category of
                    None \<Rightarrow> None
                  | Some hoursSlice \<Rightarrow>
                      if length hoursSlice = 0 then None
                      else Some (category_stats hoursSlice
                                   (list_at (categoryTitles loc) category)))"

definition initial_stats :: "DatasetStatistics \<times> stat_locals" where
  "initial_stats =
     (\<lparr>TotalTasks = 0, ClosedTasks = 0, AvgHours = 0, MedianHours = 0,
       TasksBySize = Map.empty, TasksByCategory = Map.empty,
       CategoryBreakdown = Map.empty, PercentileHours = []\<rparr>,
      \<lparr>totalHours = 0, hoursCount = 0, hours = [],
       categoryHours = Map.empty, categoryTitles = Map.empty\<rparr>)"

text \<open>
  The part of \<open>calculateDatasetStatistics\<close> after the first loop that fills in the mean,
  the median and the percentile values.
\<close>

definition hour_statistics :: "DatasetStatistics \<Rightarrow> stat_locals \<Rightarrow> DatasetStatistics" where
  "hour_statistics stats loc =
     (if hoursCount loc > 0 then
        (let stats = stats\<lparr>DatasetStatistics.AvgHours :=
                             totalHours loc / of_int (hoursCount loc)\<rparr>
         in if length (hours loc) > 0 then
              (let sortedHours = exchange_sort (\<lambda>a b. a > b) (hours loc);
                   mid = length sortedHours div 2;
                   stats = stats\<lparr>MedianHours :=
                             (if length sortedHours mod 2 = 0
                              then (sortedHours ! (mid - 1) + sortedHours ! mid) / 2
                              else sortedHours ! mid)\<rparr>
               in stats\<lparr>PercentileHours :=
                     map (\<lambda>p. sortedHours
                                ! nat \<lfloor>of_int (int (length sortedHours) - 1) * p\<rfloor>)
                         percentiles\<rparr>)
            else stats)
      else stats)"

text \<open>The result \<open>None\<close> is the nil pointer that the function returns for no statistics.\<close>

definition calculateDatasetStatistics ::
  "heap \<Rightarrow> hist_ptr list \<Rightarrow> error + DatasetStatistics option"
where
  "calculateDatasetStatistics hp historical =
     (if length historical = 0 then Inr None
      else case scan_tasks hp initial_stats historical of
             Inl e \<Rightarrow> Inl e
           | Inr (stats, loc) \<Rightarrow>
               Inr (Some ((hour_statistics stats loc)
                            \<lparr>CategoryBreakdown := category_breakdown loc\<rparr>)))"

text \<open>
  The words of the specification for C6: the hours of the entries with positive hours, the
  median computed from a full sort, and the index of a percentile in the sorted hours.
\<close>

definition positive_hours :: "heap \<Rightarrow> addr list \<Rightarrow> real list" where
  "positive_hours hp as = filter (\<lambda>h. h > 0) (map (\<lambda>a. ActualHours (hp a)) as)"

definition brute_force_median :: "real list \<Rightarrow> real" where
  "brute_force_median xs =
     (let s = sort xs; n = length s
      in if even n then (s ! (n div 2 - 1) + s ! (n div 2)) / 2 else s ! (n div 2))"

lemma scan_label_locals:
  "totalHours (snd (scan_label hist issue sl label)) = totalHours (snd sl)
   \<and> hoursCount (snd (scan_label hist issue sl label)) = hoursCount (snd sl)
   \<and> hours (snd (scan_label hist issue sl label)) = hours (snd sl)
   \<and> TotalTasks (fst (scan_label hist issue sl label)) = TotalTasks (fst sl)
   \<and> DatasetStatistics.AvgHours (fst (scan_label hist issue sl label)) = DatasetStatistics.AvgHours (fst sl)
   \<and> MedianHours (fst (scan_label hist issue sl label)) = MedianHours (fst sl)
   \<and> PercentileHours (fst (scan_label hist issue sl label)) = PercentileHours (fst sl)"
  by (cases sl) (simp add: scan_label_def Let_def)

lemma foldl_scan_label_locals:
  "totalHours (snd (foldl (scan_label hist issue) sl labels)) = totalHours (snd sl)
   \<and> hoursCount (snd (foldl (scan_label hist issue) sl labels)) = hoursCount (snd sl)
   \<and> hours (snd (foldl (scan_label hist issue) sl labels)) = hours (snd sl)
   \<and> TotalTasks (fst (foldl (scan_label hist issue) sl labels)) = TotalTasks (fst sl)
   \<and> DatasetStatistics.AvgHours (fst (foldl (scan_label hist issue) sl labels)) = DatasetStatistics.AvgHours (fst sl)
   \<and> MedianHours (fst (foldl (scan_label hist issue) sl labels)) = MedianHours (fst sl)
   \<and> PercentileHours (fst (foldl (scan_label hist issue) sl labels)) = PercentileHours (fst sl)"
  by (induction labels arbitrary: sl) (simp_all add: scan_label_locals)

lemma scan_task_locals:
  "totalHours (snd (scan_task hist sl))
     = totalHours (snd sl) + (if ActualHours hist > 0 then ActualHours hist else 0)
   \<and> hoursCount (snd (scan_task hist sl))
     = hoursCount (snd sl) + (if ActualHours hist > 0 then 1 else 0)
   \<and> hours (snd (scan_task hist sl))
     = hours (snd sl) @ (if ActualHours hist > 0 then [ActualHours hist] else [])
   \<and> TotalTasks (fst (scan_task hist sl)) = TotalTasks (fst sl) + 1
   \<and> DatasetStatistics.AvgHours (fst (scan_task hist sl)) = DatasetStatistics.AvgHours (fst sl)
   \<and> MedianHours (fst (scan_task hist sl)) = MedianHours (fst sl)
   \<and> PercentileHours (fst (scan_task hist sl)) = PercentileHours (fst sl)"
  by (cases sl)
     (simp add: scan_task_def Let_def foldl_scan_label_locals split: option.splits)

lemma scan_tasks_Some:
  "\<exists>sl'. scan_tasks hp sl (map Some as) = Inr sl'
     \<and> totalHours (snd sl') = totalHours (snd sl) + sum_list (positive_hours hp as)
     \<and> hoursCount (snd sl') = hoursCount (snd sl) + int (length (positive_hours hp as))
     \<and> hours (snd sl') = hours (snd sl) @ positive_hours hp as
     \<and> TotalTasks (fst sl') = TotalTasks (fst sl) + int (length as)
     \<and> DatasetStatistics.AvgHours (fst sl') = DatasetStatistics.AvgHours (fst sl)
     \<and> MedianHours (fst sl') = MedianHours (fst sl)
     \<and> PercentileHours (fst sl') = PercentileHours (fst sl)"
proof (induction as arbitrary: sl)
  case Nil
  then show ?case by (simp add: positive_hours_def)
next
  case (Cons a as)
  from Cons.IH [of "scan_task (hp a) sl"] obtain sl' where
    "scan_tasks hp (scan_task (hp a) sl) (map Some as) = Inr sl'
     \<and> totalHours (snd sl') = totalHours (snd (scan_task (hp a) sl)) + sum_list (positive_hours hp as)
     \<and> hoursCount (snd sl') = hoursCount (snd (scan_task (hp a) sl)) + int (length (positive_hours hp as))
     \<and> hours (snd sl') = hours (snd (scan_task (hp a) sl)) @ positive_hours hp as
     \<and> TotalTasks (fst sl') = TotalTasks (fst (scan_task (hp a) sl)) + int (length as)
     \<and> DatasetStatistics.AvgHours (fst sl') = DatasetStatistics.AvgHours (fst (scan_task (hp a) sl))
     \<and> MedianHours (fst sl') = MedianHours (fst (scan_task (hp a) sl))
     \<and> PercentileHours (fst sl') = PercentileHours (fst (scan_task (hp a) sl))"
    by blast
  then show ?case
    using scan_task_locals [of "hp a" sl]
    by (intro exI [of _ sl']) (simp add: positive_hours_def)
qed

lemma swap_order_greater: "swap_order (\<lambda>a b :: real. a > b)"
  by (simp add: swap_order_def)

lemma exchange_sort_hours: "exchange_sort (\<lambda>a b :: real. a > b) hs = sort hs"
proof -
  have "sorted_wrt (\<lambda>a b :: real. \<not> a > b) (exchange_sort (\<lambda>a b. a > b) hs)"
    by (rule sorted_wrt_exchange_sort [OF swap_order_greater])
  then have "sorted (exchange_sort (\<lambda>a b :: real. a > b) hs)"
    by (simp add: not_less)
  with mset_exchange_sort [of "\<lambda>a b :: real. a > b" hs] show ?thesis
    by (metis properties_for_sort)
qed

definition percentile_index :: "nat \<Rightarrow> real \<Rightarrow> nat" where
  "percentile_index n p = nat \<lfloor>of_int (int n - 1) * p\<rfloor>"

lemma percentile_index_mono:
  "0 < n \<Longrightarrow> p \<le> q \<Longrightarrow> percentile_index n p \<le> percentile_index n q"
  unfolding percentile_index_def
  by (intro nat_mono floor_mono mult_left_mono) simp_all

lemma percentile_index_less:
  assumes "0 < n" "q \<le> 1" shows "percentile_index n q < n"
proof -
  have "of_int (int n - 1) * q \<le> of_int (int n - 1) * 1"
    using assms by (intro mult_left_mono) simp_all
  then have "\<lfloor>of_int (int n - 1) * q\<rfloor> \<le> \<lfloor>of_int (int n - 1) * (1::real)\<rfloor>"
    by (rule floor_mono)
  then have "\<lfloor>of_int (int n - 1) * q\<rfloor> \<le> int n - 1"
    by simp
  with assms show ?thesis
    unfolding percentile_index_def by linarith
qed


lemma hour_statistics_nonempty:
  assumes hs: "hours loc \<noteq> []"
    and cnt: "hoursCount loc = int (length (hours loc))"
    and tot: "totalHours loc = sum_list (hours loc)"
  shows "DatasetStatistics.AvgHours (hour_statistics stats loc)
           = sum_list (hours loc) / real (length (hours loc))
         \<and> MedianHours (hour_statistics stats loc) = brute_force_median (hours loc)
         \<and> PercentileHours (hour_statistics stats loc)
           = map (\<lambda>p. sort (hours loc) ! percentile_index (length (hours loc)) p) percentiles
         \<and> TotalTasks (hour_statistics stats loc) = TotalTasks stats"
  using hs cnt tot
  by (simp add: hour_statistics_def Let_def exchange_sort_hours brute_force_median_def
        percentile_index_def even_iff_mod_2_eq_zero)

lemma hour_statistics_empty:
  assumes "hours loc = []" "hoursCount loc = 0"
  shows "hour_statistics stats loc = stats"
  using assms by (simp add: hour_statistics_def)

lemma sorted_percentile_values:
  assumes "hs \<noteq> []"
  shows "sorted (map (\<lambda>p. sort hs ! percentile_index (length hs) p) percentiles)"
proof -
  have n: "0 < length hs" using assms by simp
  have step: "\<And>p q. p \<le> q \<Longrightarrow> q \<le> 1 \<Longrightarrow>
        sort hs ! percentile_index (length hs) p \<le> sort hs ! percentile_index (length hs) q"
    by (rule sorted_nth_mono)
       (simp_all add: percentile_index_mono [OF n] percentile_index_less [OF n])
  show ?thesis
    unfolding percentiles_def by (simp add: step)
qed


definition hours_heap :: heap where
  "hours_heap a =
     \<lparr>Issue = None,
      ActualHours = (if a = 0 then 6 else if a = 1 then 0 else if a = 2 then 2
                     else if a = 3 then 9 else 4),
      EstimatedSize = ''M'', StoryPoints = 0\<rparr>"

text \<open>
  C6. On an empty corpus the statistics summarizer returns nil. On a non-empty corpus (of
  entries that are not nil) it returns statistics in which the mean is the mean of the
  positive hours only, the median is the median of those hours computed from a full sort,
  the five percentile values are the sorted hours at index \<open>floor ((n - 1) * p)\<close> for \<open>p\<close>
  in 0.10, 0.25, 0.50, 0.75, 0.90, and the percentile values are non-decreasing. When no
  entry has positive hours, mean and median stay 0 and there are no percentile values.
\<close>

theorem C6_dataset_statistics:
  "calculateDatasetStatistics hp [] = Inr None
   \<and> (as \<noteq> [] \<longrightarrow>
       (\<exists>stats. calculateDatasetStatistics hp (map Some as) = Inr (Some stats)
          \<and> TotalTasks stats = int (length as)
          \<and> (positive_hours hp as = [] \<longrightarrow>
                DatasetStatistics.AvgHours stats = 0 \<and> MedianHours stats = 0
                \<and> PercentileHours stats = [])
          \<and> (positive_hours hp as \<noteq> [] \<longrightarrow>
                DatasetStatistics.AvgHours stats
                  = sum_list (positive_hours hp as) / real (length (positive_hours hp as))
                \<and> MedianHours stats = brute_force_median (positive_hours hp as)
                \<and> PercentileHours stats
                  = map (\<lambda>p. sort (positive_hours hp as)
                               ! percentile_index (length (positive_hours hp as)) p)
                        [0.10, 0.25, 0.50, 0.75, 0.90])
          \<and> sorted (PercentileHours stats)))"
proof (intro conjI impI)
  show "calculateDatasetStatistics hp [] = Inr None"
    by (simp add: calculateDatasetStatistics_def)
next
  assume ne: "as \<noteq> []"
  let ?hs = "positive_hours hp as"
  obtain stats loc where run: "scan_tasks hp initial_stats (map Some as) = Inr (stats, loc)"
    and loc: "totalHours loc = sum_list ?hs" "hoursCount loc = int (length ?hs)"
             "hours loc = ?hs"
    and stats: "TotalTasks stats = int (length as)" "DatasetStatistics.AvgHours stats = 0"
               "MedianHours stats = 0" "PercentileHours stats = []"
    using scan_tasks_Some [of hp initial_stats as]
    by (auto simp: initial_stats_def)
  let ?res = "(hour_statistics stats loc)\<lparr>CategoryBreakdown := category_breakdown loc\<rparr>"
  have res: "calculateDatasetStatistics hp (map Some as) = Inr (Some ?res)"
    using ne run by (simp add: calculateDatasetStatistics_def)
  have empty: "?hs = [] \<Longrightarrow> hour_statistics stats loc = stats"
    using loc by (intro hour_statistics_empty) simp_all
  have nonempty: "?hs \<noteq> [] \<Longrightarrow>
      DatasetStatistics.AvgHours (hour_statistics stats loc) = sum_list ?hs / real (length ?hs)
      \<and> MedianHours (hour_statistics stats loc) = brute_force_median ?hs
      \<and> PercentileHours (hour_statistics stats loc)
        = map (\<lambda>p. sort ?hs ! percentile_index (length ?hs) p) percentiles
      \<and> TotalTasks (hour_statistics stats loc) = TotalTasks stats"
    using hour_statistics_nonempty [of loc stats] loc by simp
  have total: "TotalTasks ?res = int (length as)"
    using empty nonempty stats by (cases "?hs = []") simp_all
  have sorted: "sorted (PercentileHours ?res)"
    using empty nonempty stats sorted_percentile_values [of ?hs]
    by (cases "?hs = []") simp_all
  show "\<exists>stats. calculateDatasetStatistics hp (map Some as) = Inr (Some stats)
          \<and> TotalTasks stats = int (length as)
          \<and> (positive_hours hp as = [] \<longrightarrow>
                DatasetStatistics.AvgHours stats = 0 \<and> MedianHours stats = 0
                \<and> PercentileHours stats = [])
          \<and> (positive_hours hp as \<noteq> [] \<longrightarrow>
                DatasetStatistics.AvgHours stats
                  = sum_list (positive_hours hp as) / real (length (positive_hours hp as))
                \<and> MedianHours stats = brute_force_median (positive_hours hp as)
                \<and> PercentileHours stats
                  = map (\<lambda>p. sort (positive_hours hp as)
                               ! percentile_index (length (positive_hours hp as)) p)
                        [0.10, 0.25, 0.50, 0.75, 0.90])
          \<and> sorted (PercentileHours stats)"
    using res total sorted empty nonempty stats
    by (intro exI [of _ ?res]) (simp add: percentiles_def)
qed

theorem C6_dataset_statistics_witness:
  "[0, 1, 2, 3, 4 :: addr] \<noteq> [] \<and> positive_hours hours_heap [0, 1, 2, 3, 4] \<noteq> []
   \<and> (\<exists>stats. calculateDatasetStatistics hours_heap (map Some [0, 1, 2, 3, 4])
                  = Inr (Some stats)
         \<and> TotalTasks stats = 5
         \<and> DatasetStatistics.AvgHours stats = 21 / 4
         \<and> MedianHours stats = 5
         \<and> PercentileHours stats = [2, 2, 4, 6, 6])
   \<and> [1 :: addr] \<noteq> [] \<and> positive_hours hours_heap [1] = []
   \<and> (\<exists>stats. calculateDatasetStatistics hours_heap (map Some [1]) = Inr (Some stats)
         \<and> DatasetStatistics.AvgHours stats = 0 \<and> PercentileHours stats = [])"
  using C6_dataset_statistics [of hours_heap "[0, 1, 2, 3, 4]"]
    C6_dataset_statistics [of hours_heap "[1]"]
  by (auto simp add: positive_hours_def hours_heap_def brute_force_median_def
        percentile_index_def)

section \<open>The adaptive retriever (similarity.go)\<close>

text \<open>
  \<open>identifyMatches\<close> reads \<open>historical.Issue.Title\<close> without a nil check: on a nil entry
  and on an entry without \<open>Issue\<close> it panics.
\<close>

definition identifyMatches :: "heap \<Rightarrow> Task \<Rightarrow> hist_ptr \<Rightarrow> error + string list" where
  "identifyMatches hp task historical =
     (case historical of
        None \<Rightarrow> Inl NilDereference
      | Some a \<Rightarrow>
         (case HistoricalTask.Issue (hp a) of
            None \<Rightarrow> Inl NilDereference
          | Some issue \<Rightarrow>
             Inr ((if calculateTextSimilarity (Task.Title task) (Issue.Title issue) > 0.5
                   then [''title''] else [])
                  @ (if Description task \<noteq> [] \<and> Body issue \<noteq> []
                        \<and> calculateTextSimilarity (Description task) (Body issue) > 0.3
                     then [''description''] else [])
                  @ (if calculateLabelSimilarity (Task.Labels task) (extractLabels issue) > 0.3
                     then [''labels''] else [])
                  @ (if length (entries (Context task)) > 0
                        \<and> length (entries (CustomFields issue)) > 0
                        \<and> calculateContextSimilarity (Context task) (CustomFields issue) > 0.3
                     then [''custom_fields''] else []))))"

definition sortBySimilarity :: "SimilarityMatch list \<Rightarrow> SimilarityMatch list" where
  "sortBySimilarity matches =
     exchange_sort (\<lambda>mi mj. Similarity mj > Similarity mi) matches"

record scoredTask =
  hist :: hist_ptr
  similarity :: real
  matches :: "string list"

text \<open>
  The first loop of \<open>FindSimilarTasksAdaptive\<close>, with its variables \<open>maxSimilarity\<close> and
  \<open>scoredTasks\<close>. (The slice \<open>allSimilarities\<close> is written and never read.)
\<close>

fun score_tasks ::
  "heap \<Rightarrow> Task \<Rightarrow> real \<times> scoredTask list \<Rightarrow> hist_ptr list
   \<Rightarrow> error + real \<times> scoredTask list"
where
  "score_tasks hp task (maxSimilarity, scoredTasks) [] = Inr (maxSimilarity, scoredTasks)"
| "score_tasks hp task (maxSimilarity, scoredTasks) (h # rest) =
     (let similarity = CalculateSimilarity hp task h;
          maxSimilarity = (if similarity > maxSimilarity then similarity else maxSimilarity)
      in case identifyMatches hp task h of
           Inl e \<Rightarrow> Inl e
         | Inr ms \<Rightarrow>
             score_tasks hp task
               (maxSimilarity,
                scoredTasks @ [\<lparr>hist = h, similarity = similarity, matches = ms\<rparr>])
               rest)"

definition thresholds :: "real list" where
  "thresholds = [0.5, 0.4, 0.3, 0.2, 0.15]"

definition minDesiredMatches :: int where
  "minDesiredMatches = 3"

text \<open>The matches of one threshold: the filter over the scored tasks, then the sort.\<close>

definition matches_at :: "scoredTask list \<Rightarrow> real \<Rightarrow> SimilarityMatch list" where
  "matches_at scoredTasks threshold =
     sortBySimilarity
       (map (\<lambda>scored. \<lparr>Task = hist scored, Similarity = similarity scored,
                        Matches = matches scored\<rparr>)
            (filter (\<lambda>scored. similarity scored \<ge> threshold) scoredTasks))"

text \<open>
  \<open>if len(matches) > maxMatches { bestMatches = matches[:maxMatches] }\<close>: the slice
  expression panics for a negative bound.
\<close>

definition limit_to_max :: "int \<Rightarrow> SimilarityMatch list \<Rightarrow> error + SimilarityMatch list" where
  "limit_to_max maxMatches ms =
     (if int (length ms) > maxMatches
      then (if maxMatches < 0 then Inl SliceBounds else Inr (take (nat maxMatches) ms))
      else Inr ms)"

record search_state =
  bestMatches :: "SimilarityMatch list"
  thresholdUsed :: real
  thresholdsTriedCount :: int

text \<open>
  The loop over the thresholds; \<open>all_thresholds\<close> is the whole slice, whose last element
  the loop compares with, and the last argument is what remains to be tried.
\<close>

fun try_thresholds ::
  "real list \<Rightarrow> int \<Rightarrow> scoredTask list \<Rightarrow> search_state \<Rightarrow> real list \<Rightarrow> error + search_state"
where
  "try_thresholds all_thresholds maxMatches scoredTasks st [] = Inr st"
| "try_thresholds all_thresholds maxMatches scoredTasks st (threshold # rest) =
     (let st = st\<lparr>thresholdsTriedCount := thresholdsTriedCount st + 1\<rparr>;
          ms = matches_at scoredTasks threshold
      in if int (length ms) \<ge> minDesiredMatches then
           (case limit_to_max maxMatches ms of
              Inl e \<Rightarrow> Inl e
            | Inr best \<Rightarrow> Inr (st\<lparr>thresholdUsed := threshold, bestMatches := best\<rparr>))
         else if threshold = last all_thresholds \<and> length ms > 0 then
           (case limit_to_max maxMatches ms of
              Inl e \<Rightarrow> Inl e
            | Inr best \<Rightarrow> Inr (st\<lparr>thresholdUsed := threshold, bestMatches := best\<rparr>))
         else try_thresholds all_thresholds maxMatches scoredTasks st rest)"

text \<open>
  \<open>if config == nil { config = DefaultEstimationConfig() }\<close>; a nil \<open>config\<close> is \<open>None\<close>.
\<close>

definition config_or_default :: "EstimationConfig option \<Rightarrow> EstimationConfig" where
  "config_or_default config0 =
     (case config0 of None \<Rightarrow> DefaultEstimationConfig | Some c \<Rightarrow> c)"

definition FindSimilarTasksAdaptive ::
  "heap \<Rightarrow> Task \<Rightarrow> hist_ptr list \<Rightarrow> EstimationConfig option
   \<Rightarrow> error + SimilarityMatch list \<times> SimilarityContext"
where
  "FindSimilarTasksAdaptive hp task historical config0 =
     (let config = config_or_default config0;
          maxMatches = MaxSimilarTasks config
      in case score_tasks hp task (0, []) historical of
           Inl e \<Rightarrow> Inl e
         | Inr (maxSimilarity, scoredTasks) \<Rightarrow>
            (case try_thresholds thresholds maxMatches scoredTasks
                    \<lparr>bestMatches = [], thresholdUsed = 0, thresholdsTriedCount = 0\<rparr>
                    thresholds of
               Inl e \<Rightarrow> Inl e
             | Inr st \<Rightarrow>
                 Inr (bestMatches st,
                      \<lparr>ThresholdUsed = (if length (bestMatches st) = 0
                                         then MinSimilarityThreshold config
                                         else thresholdUsed st),
                       ThresholdsTriedCount = thresholdsTriedCount st,
                       TotalTasksScanned = int (length historical),
                       MatchesFound = int (length (bestMatches st)),
                       HighestSimilarity = maxSimilarity\<rparr>)))"

text \<open>
  Vocabulary for the claims about the retriever: an entry has a source record when it is
  not nil and its \<open>Issue\<close> is not nil; \<open>scored_entry\<close> and \<open>match_entry\<close> are the scored
  task and the match that the retriever builds for an entry; \<open>running_max\<close> is the
  variable \<open>maxSimilarity\<close> after the first loop.
\<close>

definition has_source :: "heap \<Rightarrow> hist_ptr \<Rightarrow> bool" where
  "has_source hp h = (case h of None \<Rightarrow> False | Some a \<Rightarrow> HistoricalTask.Issue (hp a) \<noteq> None)"

definition matched_signals :: "heap \<Rightarrow> Task \<Rightarrow> hist_ptr \<Rightarrow> string list" where
  "matched_signals hp task h = (case identifyMatches hp task h of Inl e \<Rightarrow> [] | Inr ms \<Rightarrow> ms)"

definition scored_entry :: "heap \<Rightarrow> Task \<Rightarrow> hist_ptr \<Rightarrow> scoredTask" where
  "scored_entry hp task h =
     \<lparr>hist = h, similarity = CalculateSimilarity hp task h,
      matches = matched_signals hp task h\<rparr>"

definition match_entry :: "heap \<Rightarrow> Task \<Rightarrow> hist_ptr \<Rightarrow> SimilarityMatch" where
  "match_entry hp task h =
     \<lparr>Task = h, Similarity = CalculateSimilarity hp task h,
      Matches = matched_signals hp task h\<rparr>"

definition running_max :: "real \<Rightarrow> real list \<Rightarrow> real" where
  "running_max m xs = foldl (\<lambda>m s. if s > m then s else m) m xs"

lemma identifyMatches_has_source:
  "has_source hp h \<Longrightarrow> identifyMatches hp task h = Inr (matched_signals hp task h)"
  by (auto simp: has_source_def matched_signals_def identifyMatches_def split: option.splits)


lemma score_tasks_has_source:
  "\<forall>h \<in> set historical. has_source hp h \<Longrightarrow>
   score_tasks hp task (m, acc) historical
     = Inr (running_max m (map (CalculateSimilarity hp task) historical),
            acc @ map (scored_entry hp task) historical)"
proof (induction historical arbitrary: m acc)
  case Nil
  then show ?case by (simp add: running_max_def)
next
  case (Cons h rest)
  then show ?case
    by (simp add: identifyMatches_has_source Let_def running_max_def scored_entry_def)
qed


lemma running_max_ge: "m \<le> running_max m xs"
  unfolding running_max_def
proof (induction xs arbitrary: m)
  case Nil show ?case by simp
next
  case (Cons x xs)
  have "m \<le> (if x > m then x else m)" by simp
  also have "\<dots> \<le> foldl (\<lambda>m s. if s > m then s else m) (if x > m then x else m) xs"
    by (rule Cons.IH)
  finally show ?case by simp
qed

lemma running_max_eq_Max:
  "running_max m xs = Max (insert m (set xs))"
  unfolding running_max_def
proof (induction xs arbitrary: m)
  case Nil show ?case by simp
next
  case (Cons x xs)
  have "foldl (\<lambda>m s. if s > m then s else m) m (x # xs)
          = Max (insert (if x > m then x else m) (set xs))"
    by (simp add: Cons.IH)
  also have "\<dots> = Max (insert m (set (x # xs)))"
  proof (cases "set xs = {}")
    case True then show ?thesis by (simp add: max_def)
  next
    case False
    then show ?thesis
      by (simp add: max_def)
  qed
  finally show ?case .
qed

text \<open>The true maximum of the score over the whole corpus (0 for an empty corpus).\<close>

definition brute_force_max_similarity :: "heap \<Rightarrow> Task \<Rightarrow> hist_ptr list \<Rightarrow> real" where
  "brute_force_max_similarity hp task historical =
     (if historical = [] then 0 else Max (CalculateSimilarity hp task ` set historical))"

lemma running_max_brute_force:
  "running_max 0 (map (CalculateSimilarity hp task) historical)
     = brute_force_max_similarity hp task historical"
proof (cases "historical = []")
  case True
  then show ?thesis by (simp add: running_max_def brute_force_max_similarity_def)
next
  case False
  let ?S = "CalculateSimilarity hp task ` set historical"
  have fin: "finite ?S" and ne: "?S \<noteq> {}" using False by simp_all
  have "Max ?S \<in> ?S"
    using fin ne by (rule Max_in)
  then have "0 \<le> Max ?S"
    using CalculateSimilarity_range [of hp task] by auto
  then have "Max (insert 0 ?S) = Max ?S"
    using fin ne by (simp add: max_def)
  then show ?thesis
    using False by (simp add: running_max_eq_Max brute_force_max_similarity_def)
qed


text \<open>
  The corpus entries scoring at least a threshold, in corpus order, and the test that
  makes the threshold loop stop at a threshold.
\<close>

definition scoring_at_least :: "heap \<Rightarrow> Task \<Rightarrow> hist_ptr list \<Rightarrow> real \<Rightarrow> hist_ptr list" where
  "scoring_at_least hp task historical threshold =
     filter (\<lambda>h. CalculateSimilarity hp task h \<ge> threshold) historical"

definition stops_at :: "scoredTask list \<Rightarrow> real list \<Rightarrow> real \<Rightarrow> bool" where
  "stops_at scoredTasks all_thresholds threshold \<longleftrightarrow>
     int (length (matches_at scoredTasks threshold)) \<ge> minDesiredMatches
     \<or> (threshold = last all_thresholds \<and> length (matches_at scoredTasks threshold) > 0)"

lemma try_thresholds_find:
  "try_thresholds all maxMatches scored st ts =
     (case find (stops_at scored all) ts of
        None \<Rightarrow> Inr (st\<lparr>thresholdsTriedCount := thresholdsTriedCount st + int (length ts)\<rparr>)
      | Some t \<Rightarrow>
          (case limit_to_max maxMatches (matches_at scored t) of
             Inl e \<Rightarrow> Inl e
           | Inr best \<Rightarrow>
               Inr (st\<lparr>thresholdsTriedCount :=
                          thresholdsTriedCount st
                          + int (length (takeWhile (\<lambda>t. \<not> stops_at scored all t) ts)) + 1,
                        thresholdUsed := t, bestMatches := best\<rparr>)))"
proof (induction ts arbitrary: st)
  case Nil
  then show ?case by simp
next
  case (Cons t ts)
  show ?case
  proof (cases "stops_at scored all t")
    case True
    then show ?thesis
      by (auto simp: stops_at_def Let_def split: sum.splits)
  next
    case False
    then have "try_thresholds all maxMatches scored st (t # ts)
        = try_thresholds all maxMatches scored
            (st\<lparr>thresholdsTriedCount := thresholdsTriedCount st + 1\<rparr>) ts"
      by (auto simp: stops_at_def Let_def)
    with False show ?thesis
      by (simp add: Cons.IH split: option.splits sum.splits)
  qed
qed

lemma matches_at_scored:
  "matches_at (map (scored_entry hp task) historical) t
     = sortBySimilarity (map (match_entry hp task) (scoring_at_least hp task historical t))"
proof -
  have "match_entry hp task
          = (\<lambda>x. \<lparr>Task = x, Similarity = CalculateSimilarity hp task x,
                     Matches = matched_signals hp task x\<rparr>)"
    by (rule ext) (simp add: match_entry_def)
  then show ?thesis
    by (simp add: matches_at_def scoring_at_least_def filter_map comp_def scored_entry_def)
qed

lemma length_sortBySimilarity [simp]: "length (sortBySimilarity ms) = length ms"
  by (simp add: sortBySimilarity_def)

lemma length_matches_at_scored:
  "length (matches_at (map (scored_entry hp task) historical) t)
     = length (scoring_at_least hp task historical t)"
  by (simp add: matches_at_scored)

lemma scoring_at_least_mono:
  "t \<le> t' \<Longrightarrow>
   length (scoring_at_least hp task historical t')
     \<le> length (scoring_at_least hp task historical t)"
proof -
  assume le: "t \<le> t'"
  have "scoring_at_least hp task historical t'
          = filter (\<lambda>h. CalculateSimilarity hp task h \<ge> t')
              (scoring_at_least hp task historical t)"
    unfolding scoring_at_least_def using le by (auto intro: filter_cong)
  then show ?thesis
    by (metis length_filter_le)
qed

lemma limit_to_max_take:
  "0 \<le> maxMatches \<Longrightarrow> limit_to_max maxMatches ms = Inr (take (nat maxMatches) ms)"
  by (simp add: limit_to_max_def)

lemma swap_order_similarity: "swap_order (\<lambda>mi mj. Similarity mj > Similarity mi)"
  by (simp add: swap_order_def)

lemma sortBySimilarity_sorted:
  "sorted_wrt (\<lambda>a b. Similarity a \<ge> Similarity b) (sortBySimilarity ms)"
  using sorted_wrt_exchange_sort [OF swap_order_similarity, of ms]
  by (simp add: sortBySimilarity_def not_less)

lemma sortBySimilarity_mset: "mset (sortBySimilarity ms) = mset ms"
  by (simp add: sortBySimilarity_def mset_exchange_sort)

text \<open>The retriever on a corpus whose entries all have a source record.\<close>

lemma FindSimilarTasksAdaptive_has_source:
  assumes "\<forall>h \<in> set historical. has_source hp h"
  shows "FindSimilarTasksAdaptive hp task historical config0 =
     (case try_thresholds thresholds (MaxSimilarTasks (config_or_default config0))
             (map (scored_entry hp task) historical)
             \<lparr>bestMatches = [], thresholdUsed = 0, thresholdsTriedCount = 0\<rparr> thresholds of
        Inl e \<Rightarrow> Inl e
      | Inr st \<Rightarrow>
          Inr (bestMatches st,
               \<lparr>ThresholdUsed = (if length (bestMatches st) = 0
                                  then MinSimilarityThreshold (config_or_default config0)
                                  else thresholdUsed st),
                ThresholdsTriedCount = thresholdsTriedCount st,
                TotalTasksScanned = int (length historical),
                MatchesFound = int (length (bestMatches st)),
                HighestSimilarity = brute_force_max_similarity hp task historical\<rparr>))"
  using score_tasks_has_source [OF assms, of task 0 "[]"]
  by (simp add: FindSimilarTasksAdaptive_def Let_def running_max_brute_force)

subsection \<open>An example corpus\<close>

definition logout_issue :: Issue where
  "logout_issue =
     \<lparr>Issue.Title = ''Implement logout page'', Body = [], State = ''closed'',
      Labels = [\<lparr>Name = ''frontend''\<rparr>], CustomFields = []\<rparr>"

definition database_issue :: Issue where
  "database_issue =
     \<lparr>Issue.Title = ''Fix database crash'', Body = [], State = ''closed'',
      Labels = [\<lparr>Name = ''backend''\<rparr>], CustomFields = []\<rparr>"

definition search_issue :: Issue where
  "search_issue =
     \<lparr>Issue.Title = ''Implement new search bar'', Body = [], State = ''closed'',
      Labels = [\<lparr>Name = ''backend''\<rparr>], CustomFields = []\<rparr>"

definition results_issue :: Issue where
  "results_issue =
     \<lparr>Issue.Title = ''Implement search results'', Body = [], State = ''closed'',
      Labels = [\<lparr>Name = ''frontend''\<rparr>], CustomFields = []\<rparr>"

definition corpus_heap :: heap where
  "corpus_heap a =
     (if a = 0 then \<lparr>Issue = Some example_issue, ActualHours = 6,
                      EstimatedSize = ''M'', StoryPoints = 5\<rparr>
      else if a = 1 then \<lparr>Issue = Some example_issue, ActualHours = 8,
                      EstimatedSize = ''L'', StoryPoints = 8\<rparr>
      else if a = 2 then \<lparr>Issue = Some logout_issue, ActualHours = 3,
                      EstimatedSize = ''S'', StoryPoints = 2\<rparr>
      else if a = 3 then \<lparr>Issue = Some database_issue, ActualHours = 1,
                      EstimatedSize = ''XS'', StoryPoints = 1\<rparr>
      else if a = 4 then \<lparr>Issue = Some search_issue, ActualHours = 12,
                      EstimatedSize = ''L'', StoryPoints = 8\<rparr>
      else \<lparr>Issue = Some results_issue, ActualHours = 5,
                      EstimatedSize = ''M'', StoryPoints = 3\<rparr>)"


lemma corpus_scores:
  "CalculateSimilarity corpus_heap example_task (Some 0) = 2 / 3"
  "CalculateSimilarity corpus_heap example_task (Some 1) = 2 / 3"
  "CalculateSimilarity corpus_heap example_task (Some (Suc 0)) = 2 / 3"
  "CalculateSimilarity corpus_heap example_task (Some 2) = 1"
  "CalculateSimilarity corpus_heap example_task (Some 3) = 0"
  "CalculateSimilarity corpus_heap example_task (Some 4) = 1 / 9"
  "CalculateSimilarity corpus_heap example_task (Some 5) = 7 / 15"
  by code_simp+

lemma corpus_has_source: "has_source corpus_heap (Some a)"
  by (simp add: has_source_def corpus_heap_def)

lemma stops_at_scored:
  "stops_at (map (scored_entry hp task) historical) thresholds t \<longleftrightarrow>
     3 \<le> length (scoring_at_least hp task historical t)
     \<or> (t = 0.15 \<and> 0 < length (scoring_at_least hp task historical t))"
  by (simp add: stops_at_def length_matches_at_scored thresholds_def minDesiredMatches_def)

lemma sortBySimilarity_Nil [simp]: "sortBySimilarity [] = []"
  by (metis length_0_conv length_sortBySimilarity)

lemma find_thresholds:
  "find P thresholds =
     (if P 0.5 then Some 0.5 else if P 0.4 then Some 0.4 else if P 0.3 then Some 0.3
      else if P 0.2 then Some 0.2 else if P 0.15 then Some 0.15 else None)"
  by (simp add: thresholds_def)

lemma length_thresholds: "length thresholds = 5"
  by (simp add: thresholds_def)


text \<open>
  C10. When no corpus entry scores at least 0.15, so that the retriever finds no match at
  any threshold, the returned context reports as \<open>ThresholdUsed\<close> the configured
  \<open>MinSimilarityThreshold\<close> (0.3 in the default configuration) and not 0.15, reports
  \<open>MatchesFound = 0\<close>, and \<open>HighestSimilarity\<close> is the true maximum over the corpus. The
  corpus entries are taken to have a source record: \<open>identifyMatches\<close> panics otherwise.
\<close>

theorem C10_fallback_threshold:
  assumes src: "\<forall>h \<in> set historical. has_source hp h"
    and none: "scoring_at_least hp task historical 0.15 = []"
  shows "FindSimilarTasksAdaptive hp task historical config0 =
           Inr ([], \<lparr>ThresholdUsed = MinSimilarityThreshold (config_or_default config0),
                     ThresholdsTriedCount = 5,
                     TotalTasksScanned = int (length historical),
                     MatchesFound = 0,
                     HighestSimilarity = brute_force_max_similarity hp task historical\<rparr>)
         \<and> MinSimilarityThreshold (config_or_default None) = 0.3"
proof -
  have zero: "length (scoring_at_least hp task historical t) = 0" if "0.15 \<le> t" for t
    using scoring_at_least_mono [OF that, of hp task historical] none by simp
  have "find (stops_at (map (scored_entry hp task) historical) thresholds) thresholds = None"
    by (simp add: find_thresholds stops_at_scored zero)
  then show ?thesis
    by (simp add: FindSimilarTasksAdaptive_has_source [OF src] try_thresholds_find
          length_thresholds config_or_default_def DefaultEstimationConfig_def)
qed

theorem C10_fallback_threshold_witness:
  "has_source corpus_heap (Some 3) \<and> has_source corpus_heap (Some 4)
   \<and> scoring_at_least corpus_heap example_task [Some 3, Some 4] 0.15 = []
   \<and> FindSimilarTasksAdaptive corpus_heap example_task [Some 3, Some 4] None =
       Inr ([], \<lparr>ThresholdUsed = 0.3, ThresholdsTriedCount = 5, TotalTasksScanned = 2,
                 MatchesFound = 0, HighestSimilarity = 1 / 9\<rparr>)"
proof -
  have src: "\<forall>h \<in> set [Some 3, Some 4]. has_source corpus_heap h"
    by (simp add: corpus_has_source)
  have none: "scoring_at_least corpus_heap example_task [Some 3, Some 4] 0.15 = []"
    by (simp add: scoring_at_least_def corpus_scores)
  have "brute_force_max_similarity corpus_heap example_task [Some 3, Some 4] = 1 / 9"
    by (simp add: brute_force_max_similarity_def corpus_scores)
  with C10_fallback_threshold [OF src none, of None] src none show ?thesis
    by (simp add: config_or_default_def DefaultEstimationConfig_def corpus_has_source)
qed





lemma find_sorted_desc:
  "sorted_wrt (>) xs \<Longrightarrow> t \<in> set xs \<Longrightarrow> P t \<Longrightarrow>
   (\<forall>t' \<in> set xs. (t :: real) < t' \<longrightarrow> \<not> P t') \<Longrightarrow> find P xs = Some t"
  by (induction xs) auto

lemma thresholds_desc: "sorted_wrt (>) thresholds"
  by (simp add: thresholds_def)

lemma thresholds_ge: "t \<in> set thresholds \<Longrightarrow> 0.15 \<le> t"
  by (auto simp: thresholds_def)

lemma find_first_sufficient:
  assumes t: "t \<in> set thresholds"
    and enough: "3 \<le> length (scoring_at_least hp task historical t)"
    and first: "\<forall>t' \<in> set thresholds. t < t' \<longrightarrow>
                  length (scoring_at_least hp task historical t') < 3"
  shows "find (stops_at (map (scored_entry hp task) historical) thresholds) thresholds = Some t"
proof (rule find_sorted_desc [OF thresholds_desc t])
  show "stops_at (map (scored_entry hp task) historical) thresholds t"
    using enough by (simp add: stops_at_scored)
  show "\<forall>t' \<in> set thresholds. t < t' \<longrightarrow>
          \<not> stops_at (map (scored_entry hp task) historical) thresholds t'"
  proof (intro ballI impI)
    fix t' assume t': "t' \<in> set thresholds" "t < t'"
    with first have "\<not> 3 \<le> length (scoring_at_least hp task historical t')"
      by (simp add: not_le)
    moreover have "t' \<noteq> 0.15"
      using thresholds_ge [OF t] t'(2) by simp
    ultimately show "\<not> stops_at (map (scored_entry hp task) historical) thresholds t'"
      by (simp add: stops_at_scored)
  qed
qed

text \<open>
  C9 as stated fails: the exchange sort is not stable. Entries 0 and 1 score the same,
  entry 2 scores higher; the first swap moves entry 0 behind entry 1, and the result lists
  entry 1 before entry 0, against corpus order.
\<close>

theorem C9_equal_scores_in_reverse_corpus_order:
  "CalculateSimilarity corpus_heap example_task (Some 0) = 2 / 3
   \<and> CalculateSimilarity corpus_heap example_task (Some 1) = 2 / 3
   \<and> CalculateSimilarity corpus_heap example_task (Some 2) = 1
   \<and> FindSimilarTasksAdaptive corpus_heap example_task [Some 0, Some 1, Some 2] None
       = Inr ([\<lparr>Task = Some 2, Similarity = 1, Matches = [''title'', ''labels'']\<rparr>,
               \<lparr>Task = Some 1, Similarity = 2 / 3, Matches = [''labels'']\<rparr>,
               \<lparr>Task = Some 0, Similarity = 2 / 3, Matches = [''labels'']\<rparr>],
              \<lparr>ThresholdUsed = 0.5, ThresholdsTriedCount = 1, TotalTasksScanned = 3,
               MatchesFound = 3, HighestSimilarity = 1\<rparr>)"
  by code_simp

text \<open>
  C9, amended. For every task, every corpus of entries with a source record and every
  threshold level \<open>t\<close> that is the first to yield at least three entries, the retriever
  returns the matches of the entries scoring at least \<open>t\<close>, sorted in descending score
  order (a permutation of those matches; the order among equal scores is not the corpus
  order in general), cut to the first \<open>MaxSimilarTasks\<close>, and reports \<open>t\<close> as the threshold
  used when \<open>MaxSimilarTasks\<close> is positive.
\<close>

theorem C9_sorted_matches_at_first_sufficient_threshold:
  assumes src: "\<forall>h \<in> set historical. has_source hp h"
    and max: "0 \<le> MaxSimilarTasks (config_or_default config0)"
    and t: "t \<in> set thresholds"
    and enough: "3 \<le> length (scoring_at_least hp task historical t)"
    and first: "\<forall>t' \<in> set thresholds. t < t' \<longrightarrow>
                  length (scoring_at_least hp task historical t') < 3"
  shows "\<exists>ms ctx sorted_matches.
           FindSimilarTasksAdaptive hp task historical config0 = Inr (ms, ctx)
           \<and> sorted_matches
               = sortBySimilarity
                   (map (match_entry hp task) (scoring_at_least hp task historical t))
           \<and> ms = take (nat (MaxSimilarTasks (config_or_default config0))) sorted_matches
           \<and> sorted_wrt (\<lambda>a b. Similarity a \<ge> Similarity b) sorted_matches
           \<and> mset sorted_matches
               = mset (map (match_entry hp task) (scoring_at_least hp task historical t))
           \<and> (0 < MaxSimilarTasks (config_or_default config0) \<longrightarrow> ThresholdUsed ctx = t)"
proof -
  let ?sorted = "sortBySimilarity
                   (map (match_entry hp task) (scoring_at_least hp task historical t))"
  let ?ms = "take (nat (MaxSimilarTasks (config_or_default config0))) ?sorted"
  have ne: "scoring_at_least hp task historical t \<noteq> []"
    using enough by auto
  have "\<exists>ctx. FindSimilarTasksAdaptive hp task historical config0 = Inr (?ms, ctx)
              \<and> (0 < MaxSimilarTasks (config_or_default config0) \<longrightarrow> ThresholdUsed ctx = t)"
    using ne
    by (auto simp: FindSimilarTasksAdaptive_has_source [OF src] try_thresholds_find
          find_first_sufficient [OF t enough first] matches_at_scored
          limit_to_max_take [OF max] min_def split: if_splits)
  then show ?thesis
    using sortBySimilarity_sorted [of "map (match_entry hp task)
                                         (scoring_at_least hp task historical t)"]
      sortBySimilarity_mset [of "map (match_entry hp task)
                                   (scoring_at_least hp task historical t)"]
    by blast
qed

theorem C9_sorted_matches_at_first_sufficient_threshold_witness:
  "has_source corpus_heap (Some 0) \<and> has_source corpus_heap (Some 5)
   \<and> has_source corpus_heap (Some 2)
   \<and> 0 \<le> MaxSimilarTasks (config_or_default None)
   \<and> 0.4 \<in> set thresholds
   \<and> 3 \<le> length (scoring_at_least corpus_heap example_task [Some 0, Some 5, Some 2] 0.4)
   \<and> length (scoring_at_least corpus_heap example_task [Some 0, Some 5, Some 2] 0.5) < 3
   \<and> (\<exists>ms ctx. FindSimilarTasksAdaptive corpus_heap example_task [Some 0, Some 5, Some 2] None
                   = Inr (ms, ctx)
          \<and> length ms = 3
          \<and> sorted_wrt (\<lambda>a b. Similarity a \<ge> Similarity b) ms
          \<and> ThresholdUsed ctx = 0.4)"
proof -
  have src: "\<forall>h \<in> set [Some 0, Some 5, Some 2]. has_source corpus_heap h"
    by (simp add: corpus_has_source)
  have max: "0 \<le> MaxSimilarTasks (config_or_default None)"
    and pos: "0 < MaxSimilarTasks (config_or_default None)"
    and fifteen: "nat (MaxSimilarTasks (config_or_default None)) = 15"
    by (simp_all add: config_or_default_def DefaultEstimationConfig_def)
  have t: "0.4 \<in> set thresholds"
    by (simp add: thresholds_def)
  have sc: "scoring_at_least corpus_heap example_task [Some 0, Some 5, Some 2] 0.4
              = [Some 0, Some 5, Some 2]"
    by (simp add: scoring_at_least_def corpus_scores)
  have sc5: "scoring_at_least corpus_heap example_task [Some 0, Some 5, Some 2] 0.5
               = [Some 0, Some 2]"
    by (simp add: scoring_at_least_def corpus_scores)
  have enough:
    "3 \<le> length (scoring_at_least corpus_heap example_task [Some 0, Some 5, Some 2] 0.4)"
    unfolding sc by simp
  have few5:
    "length (scoring_at_least corpus_heap example_task [Some 0, Some 5, Some 2] 0.5) < 3"
    unfolding sc5 by simp
  have "t' = 0.5" if "t' \<in> set thresholds" "0.4 < t'" for t'
    using that by (auto simp: thresholds_def)
  with few5 have first: "\<forall>t' \<in> set thresholds. 0.4 < t' \<longrightarrow>
         length (scoring_at_least corpus_heap example_task [Some 0, Some 5, Some 2] t') < 3"
    by blast
  from C9_sorted_matches_at_first_sufficient_threshold [OF src max t enough first] pos
  obtain ms ctx where
    run: "FindSimilarTasksAdaptive corpus_heap example_task [Some 0, Some 5, Some 2] None
            = Inr (ms, ctx)"
    and ms: "ms = take (nat (MaxSimilarTasks (config_or_default None)))
               (sortBySimilarity (map (match_entry corpus_heap example_task)
                  (scoring_at_least corpus_heap example_task [Some 0, Some 5, Some 2] 0.4)))"
    and sorted: "sorted_wrt (\<lambda>a b. Similarity a \<ge> Similarity b)
               (sortBySimilarity (map (match_entry corpus_heap example_task)
                  (scoring_at_least corpus_heap example_task [Some 0, Some 5, Some 2] 0.4)))"
    and used: "ThresholdUsed ctx = 0.4"
    by blast
  have "length ms = 3" and "sorted_wrt (\<lambda>a b. Similarity a \<ge> Similarity b) ms"
    using sorted unfolding ms sc fifteen by simp_all
  with run used max t enough few5 corpus_has_source show ?thesis
    by blast
qed

section \<open>The batch engine (batch.go)\<close>

record BatchTask =
  ID :: string
  Title :: string
  Description :: string
  Labels :: "string list"
  Context :: "(string \<times> string) list"
  Priority :: string
  Assignee :: string

record EstimationResult =
  Task :: Task
  Estimation :: "EstimationResponse option"
  SimilarTasks :: "SimilarityMatch list"
  Method :: string
  DataSource :: string
  DatasetStats :: "DatasetStatistics option"
  SimilarityContext :: "SimilarityContext option"

text \<open>
  A \<open>BatchResult\<close>; the \<open>error\<close> value is its message, \<open>None\<close> for nil. The time stamps of
  results and reports are left out.
\<close>

record BatchResult =
  Task :: BatchTask
  Result :: "EstimationResult option"
  Error :: "string option"

record BatchStatistics =
  TotalEstimatedHours :: real
  AverageHours :: real
  MedianHours :: real
  MinHours :: real
  MaxHours :: real
  AverageConfidence :: real
  SizeDistribution :: "string \<rightharpoonup> int"
  SizeHours :: "string \<rightharpoonup> real"
  CategoryDistribution :: "string \<rightharpoonup> int"
  CategoryHours :: "string \<rightharpoonup> real"
  HighConfidenceTasks :: int
  MediumConfidenceTasks :: int
  LowConfidenceTasks :: int

record BatchReport =
  Request :: "BatchTask list"
  Results :: "BatchResult list"
  TotalTasks :: int
  SuccessfulTasks :: int
  FailedTasks :: int
  Statistics :: "BatchStatistics option"

definition calculateMedian :: "real list \<Rightarrow> real" where
  "calculateMedian values =
     (if length values = 0 then 0
      else foldl (\<lambda>sum v. sum + v) 0 values / of_int (int (length values)))"

definition findMin :: "real list \<Rightarrow> real" where
  "findMin values =
     (if length values = 0 then 0
      else foldl (\<lambda>cur v. if v < cur then v else cur) (hd values) (tl values))"

definition findMax :: "real list \<Rightarrow> real" where
  "findMax values =
     (if length values = 0 then 0
      else foldl (\<lambda>cur v. if v > cur then v else cur) (hd values) (tl values))"

definition hours_at :: "(string \<rightharpoonup> real) \<Rightarrow> string \<Rightarrow> real" where
  "hours_at m k = (case m k of None \<Rightarrow> 0 | Some h \<Rightarrow> h)"

text \<open>
  The guard of the loop of \<open>calculateStatistics\<close>: a result is skipped when it has an
  error, no \<open>Result\<close> or no \<open>Estimation\<close>; otherwise its estimation is used.
\<close>

definition counted_estimation :: "BatchResult \<Rightarrow> EstimationResponse option" where
  "counted_estimation result =
     (if Error result \<noteq> None then None
      else case Result result of None \<Rightarrow> None | Some r \<Rightarrow> Estimation r)"

text \<open>The variables of \<open>calculateStatistics\<close> that its loop updates.\<close>

record batch_locals =
  stats :: BatchStatistics
  batch_hours :: "real list"
  confidenceSum :: real
  confidenceCount :: int

definition count_label :: "real \<Rightarrow> BatchStatistics \<Rightarrow> string \<Rightarrow> BatchStatistics" where
  "count_label h st label =
     st\<lparr>CategoryDistribution :=
          (CategoryDistribution st)(label \<mapsto> count_at (CategoryDistribution st) label + 1),
        CategoryHours :=
          (CategoryHours st)(label \<mapsto> hours_at (CategoryHours st) label + h)\<rparr>"

definition statistics_step :: "batch_locals \<Rightarrow> BatchResult \<Rightarrow> batch_locals" where
  "statistics_step loc result =
     (case counted_estimation result of
        None \<Rightarrow> loc
      | Some est \<Rightarrow>
         (let h = EstimatedHours est;
              sz = EstimationResponse.EstimatedSize est;
              st = stats loc;
              st = st\<lparr>TotalEstimatedHours := TotalEstimatedHours st + h\<rparr>;
              st = st\<lparr>SizeDistribution :=
                        (SizeDistribution st)(sz \<mapsto> count_at (SizeDistribution st) sz + 1),
                      SizeHours :=
                        (SizeHours st)(sz \<mapsto> hours_at (SizeHours st) sz + h)\<rparr>;
              st = foldl (count_label h) st (BatchTask.Labels (BatchResult.Task result));
              st = (if ConfidenceScore est \<ge> 0.70
                    then st\<lparr>HighConfidenceTasks := HighConfidenceTasks st + 1\<rparr>
                    else if ConfidenceScore est \<ge> 0.50
                    then st\<lparr>MediumConfidenceTasks := MediumConfidenceTasks st + 1\<rparr>
                    else st\<lparr>LowConfidenceTasks := LowConfidenceTasks st + 1\<rparr>)
          in \<lparr>stats = st,
              batch_hours = batch_hours loc @ [h],
              confidenceSum = confidenceSum loc + ConfidenceScore est,
              confidenceCount = confidenceCount loc + 1\<rparr>))"

definition initial_batch_locals :: batch_locals where
  "initial_batch_locals =
     \<lparr>stats = \<lparr>TotalEstimatedHours = 0, AverageHours = 0, MedianHours = 0, MinHours = 0,
                MaxHours = 0, AverageConfidence = 0,
                SizeDistribution = Map.empty, SizeHours = Map.empty,
                CategoryDistribution = Map.empty, CategoryHours = Map.empty,
                HighConfidenceTasks = 0, MediumConfidenceTasks = 0,
                LowConfidenceTasks = 0\<rparr>,
      batch_hours = [], confidenceSum = 0, confidenceCount = 0\<rparr>"

definition calculateStatistics :: "BatchResult list \<Rightarrow> BatchStatistics" where
  "calculateStatistics results =
     (let loc = foldl statistics_step initial_batch_locals results;
          st = stats loc;
          st = (if length (batch_hours loc) > 0
                then st\<lparr>AverageHours :=
                          TotalEstimatedHours st / of_int (int (length (batch_hours loc))),
                        MedianHours := calculateMedian (batch_hours loc),
                        MinHours := findMin (batch_hours loc),
                        MaxHours := findMax (batch_hours loc)\<rparr>
                else st)
      in if confidenceCount loc > 0
         then st\<lparr>AverageConfidence := confidenceSum loc / of_int (confidenceCount loc)\<rparr>
         else st)"

text \<open>The estimated hours of the results that the statistics count, in order.\<close>

definition successful_hours :: "BatchResult list \<Rightarrow> real list" where
  "successful_hours results = map EstimatedHours (List.map_filter counted_estimation results)"

lemma foldl_plus_sum_list: "foldl (\<lambda>sum v. sum + v) (a :: real) xs = a + sum_list xs"
  by (induction xs arbitrary: a) simp_all

lemma running_min_eq_Min:
  "foldl (\<lambda>cur v. if v < cur then v else cur) (m :: real) xs = Min (insert m (set xs))"
proof (induction xs arbitrary: m)
  case Nil show ?case by simp
next
  case (Cons x xs)
  have step: "(if x < m then x else m) = min m x"
    by (simp add: min_def)
  have "foldl (\<lambda>cur v. if v < cur then v else cur) m (x # xs)
          = Min (insert (min m x) (set xs))"
    by (simp add: Cons.IH step)
  also have "\<dots> = Min (insert m (set (x # xs)))"
    by (cases "set xs = {}") (simp_all add: min.assoc)
  finally show ?case .
qed

lemma calculateMedian_mean:
  "hs \<noteq> [] \<Longrightarrow> calculateMedian hs = sum_list hs / real (length hs)"
  by (simp add: calculateMedian_def foldl_plus_sum_list)

lemma findMin_Min: "hs \<noteq> [] \<Longrightarrow> findMin hs = Min (set hs)"
  by (cases hs) (simp_all add: findMin_def running_min_eq_Min)

lemma findMax_Max: "hs \<noteq> [] \<Longrightarrow> findMax hs = Max (set hs)"
  using running_max_eq_Max [of "hd hs" "tl hs"]
  by (cases hs) (simp_all add: findMax_def running_max_def)

lemma count_label_fields:
  "TotalEstimatedHours (foldl (count_label h) st labels) = TotalEstimatedHours st
   \<and> AverageHours (foldl (count_label h) st labels) = AverageHours st
   \<and> BatchStatistics.MedianHours (foldl (count_label h) st labels)
     = BatchStatistics.MedianHours st
   \<and> BatchStatistics.MinHours (foldl (count_label h) st labels) = BatchStatistics.MinHours st
   \<and> BatchStatistics.MaxHours (foldl (count_label h) st labels) = BatchStatistics.MaxHours st"
  by (induction labels arbitrary: st) (simp_all add: count_label_def)

lemma statistics_step_hours:
  "batch_hours (statistics_step loc r)
     = batch_hours loc @ map EstimatedHours (List.map_filter counted_estimation [r])
   \<and> TotalEstimatedHours (stats (statistics_step loc r))
     = TotalEstimatedHours (stats loc)
       + sum_list (map EstimatedHours (List.map_filter counted_estimation [r]))
   \<and> AverageHours (stats (statistics_step loc r)) = AverageHours (stats loc)
   \<and> BatchStatistics.MedianHours (stats (statistics_step loc r))
     = BatchStatistics.MedianHours (stats loc)
   \<and> BatchStatistics.MinHours (stats (statistics_step loc r))
     = BatchStatistics.MinHours (stats loc)
   \<and> BatchStatistics.MaxHours (stats (statistics_step loc r))
     = BatchStatistics.MaxHours (stats loc)"
  by (cases "counted_estimation r")
     (simp_all add: statistics_step_def List.map_filter_simps Let_def count_label_fields)

lemma foldl_statistics_step_hours:
  "batch_hours (foldl statistics_step loc results) = batch_hours loc @ successful_hours results
   \<and> TotalEstimatedHours (stats (foldl statistics_step loc results))
     = TotalEstimatedHours (stats loc) + sum_list (successful_hours results)
   \<and> AverageHours (stats (foldl statistics_step loc results)) = AverageHours (stats loc)
   \<and> BatchStatistics.MedianHours (stats (foldl statistics_step loc results))
     = BatchStatistics.MedianHours (stats loc)
   \<and> BatchStatistics.MinHours (stats (foldl statistics_step loc results))
     = BatchStatistics.MinHours (stats loc)
   \<and> BatchStatistics.MaxHours (stats (foldl statistics_step loc results))
     = BatchStatistics.MaxHours (stats loc)"
proof (induction results arbitrary: loc)
  case Nil
  show ?case by (simp add: successful_hours_def List.map_filter_simps)
next
  case (Cons r rs)
  show ?case
    using Cons.IH [of "statistics_step loc r"] statistics_step_hours [of loc r]
    by (cases "counted_estimation r")
       (simp_all add: successful_hours_def List.map_filter_simps)
qed

lemma calculateStatistics_hours:
  "TotalEstimatedHours (calculateStatistics results) = sum_list (successful_hours results)
   \<and> AverageHours (calculateStatistics results)
     = (if successful_hours results = [] then 0
        else sum_list (successful_hours results) / real (length (successful_hours results)))
   \<and> BatchStatistics.MedianHours (calculateStatistics results)
     = calculateMedian (successful_hours results)
   \<and> BatchStatistics.MinHours (calculateStatistics results) = findMin (successful_hours results)
   \<and> BatchStatistics.MaxHours (calculateStatistics results) = findMax (successful_hours results)"
  using foldl_statistics_step_hours [of initial_batch_locals results]
  by (simp add: calculateStatistics_def Let_def initial_batch_locals_def
        calculateMedian_def findMin_def findMax_def)


subsection \<open>Example results\<close>

definition example_batch_task :: BatchTask where
  "example_batch_task =
     \<lparr>ID = ''TASK-001'', Title = ''Implement logout page'', Description = [],
      Labels = [''feature''], Context = [], Priority = ''high'', Assignee = []\<rparr>"

definition estimate_of :: "real \<Rightarrow> EstimationResponse" where
  "estimate_of h =
     \<lparr>EstimatedHours = h, EstimatedSize = ''M'', StoryPoints = 3, ConfidenceScore = 0.8,
      Reasoning = ''similar to past tasks'', Assumptions = [], Risks = [],
      RecommendedAction = []\<rparr>"

definition succeeded :: "BatchTask \<Rightarrow> real \<Rightarrow> BatchResult" where
  "succeeded t h =
     \<lparr>BatchResult.Task = t,
      Result = Some \<lparr>EstimationResult.Task = example_task, Estimation = Some (estimate_of h),
                     SimilarTasks = [], Method = ''ai'', DataSource = ''openai'',
                     DatasetStats = None, SimilarityContext = None\<rparr>,
      Error = None\<rparr>"

definition failed :: "BatchTask \<Rightarrow> BatchResult" where
  "failed t = \<lparr>BatchResult.Task = t, Result = None, Error = Some ''AI estimation failed''\<rparr>"

lemma successful_hours_example:
  "successful_hours [succeeded example_batch_task 1, failed example_batch_task,
                     succeeded example_batch_task 2, succeeded example_batch_task 9]
     = [1, 2, 9]"
  by (simp add: successful_hours_def List.map_filter_simps counted_estimation_def
        succeeded_def failed_def estimate_of_def)

text \<open>
  C7 as stated fails: for successful hours 1, 2 and 9 the report's \<open>MedianHours\<close> is their
  mean 4, and the median is 2.
\<close>

theorem C7_median_hours_is_the_mean:
  "successful_hours [succeeded example_batch_task 1, failed example_batch_task,
                     succeeded example_batch_task 2, succeeded example_batch_task 9]
     = [1, 2, 9]
   \<and> BatchStatistics.MedianHours
       (calculateStatistics [succeeded example_batch_task 1, failed example_batch_task,
                             succeeded example_batch_task 2, succeeded example_batch_task 9])
     = 4
   \<and> brute_force_median [1, 2, 9] = 2"
  using calculateStatistics_hours
          [of "[succeeded example_batch_task 1, failed example_batch_task,
                succeeded example_batch_task 2, succeeded example_batch_task 9]"]
  unfolding successful_hours_example
  by (simp add: calculateMedian_def brute_force_median_def)

text \<open>
  C7, amended. For every batch, over the estimated hours of the successful tasks only, the
  report's statistics hold their total, their average, their minimum and their maximum,
  and \<open>MedianHours\<close> holds their arithmetic mean (\<open>calculateMedian\<close> does not sort); with no
  successful task all five are 0.
\<close>

theorem C7_hour_statistics:
  "TotalEstimatedHours (calculateStatistics results) = sum_list (successful_hours results)
   \<and> (successful_hours results \<noteq> [] \<longrightarrow>
        AverageHours (calculateStatistics results)
          = sum_list (successful_hours results) / real (length (successful_hours results))
        \<and> BatchStatistics.MedianHours (calculateStatistics results)
          = sum_list (successful_hours results) / real (length (successful_hours results))
        \<and> BatchStatistics.MinHours (calculateStatistics results)
          = Min (set (successful_hours results))
        \<and> BatchStatistics.MaxHours (calculateStatistics results)
          = Max (set (successful_hours results)))
   \<and> (successful_hours results = [] \<longrightarrow>
        AverageHours (calculateStatistics results) = 0
        \<and> BatchStatistics.MedianHours (calculateStatistics results) = 0
        \<and> BatchStatistics.MinHours (calculateStatistics results) = 0
        \<and> BatchStatistics.MaxHours (calculateStatistics results) = 0)"
  using calculateStatistics_hours [of results]
  by (auto simp: calculateMedian_mean findMin_Min findMax_Max)
     (simp_all add: calculateMedian_def findMin_def findMax_def)

theorem C7_hour_statistics_witness:
  "successful_hours [succeeded example_batch_task 1, failed example_batch_task,
                     succeeded example_batch_task 2, succeeded example_batch_task 9] \<noteq> []
   \<and> TotalEstimatedHours
       (calculateStatistics [succeeded example_batch_task 1, failed example_batch_task,
                             succeeded example_batch_task 2, succeeded example_batch_task 9])
     = 12
   \<and> AverageHours
       (calculateStatistics [succeeded example_batch_task 1, failed example_batch_task,
                             succeeded example_batch_task 2, succeeded example_batch_task 9])
     = 4
   \<and> BatchStatistics.MinHours
       (calculateStatistics [succeeded example_batch_task 1, failed example_batch_task,
                             succeeded example_batch_task 2, succeeded example_batch_task 9])
     = 1
   \<and> BatchStatistics.MaxHours
       (calculateStatistics [succeeded example_batch_task 1, failed example_batch_task,
                             succeeded example_batch_task 2, succeeded example_batch_task 9])
     = 9
   \<and> successful_hours [failed example_batch_task] = []
   \<and> BatchStatistics.MedianHours (calculateStatistics [failed example_batch_task]) = 0"
proof -
  have none: "successful_hours [failed example_batch_task] = []"
    by (simp add: successful_hours_def List.map_filter_simps counted_estimation_def
          failed_def)
  show ?thesis
    using C7_hour_statistics
            [of "[succeeded example_batch_task 1, failed example_batch_task,
                  succeeded example_batch_task 2, succeeded example_batch_task 9]"]
      C7_hour_statistics [of "[failed example_batch_task]"]
    unfolding successful_hours_example none
    by simp
qed

section \<open>The worker pool of the batch engine\<close>

text \<open>
  \<open>ProcessBatch\<close> starts \<open>maxWorkers\<close> goroutines that share a task channel, a result
  channel and the semaphore \<open>rateLimiter\<close>; the main goroutine sends the tasks, closes the
  task channel and gathers the results until the result channel is closed, which happens
  when every worker has returned. The goroutines are modelled by a step relation on the
  state of the channels and of the workers; every interleaving is a path of the relation.

  The call \<open>bp.estimator.Estimate(ctx, task)\<close> reaches the external provider. Its outcome
  for the task with index \<open>i\<close> of the batch is the parameter \<open>est i\<close>, applied to the converted
  task: an error message or an estimation result. (A panic inside a worker ends the whole
  program and is outside the model.)
\<close>

definition NewBatchProcessor :: "int \<Rightarrow> nat" where
  "NewBatchProcessor maxWorkers = (if maxWorkers \<le> 0 then 5 else nat maxWorkers)"

text \<open>The body of the worker's loop for one task: the conversion and the result.\<close>

definition to_Task :: "BatchTask \<Rightarrow> Task" where
  "to_Task batchTask =
     \<lparr>Task.Title = BatchTask.Title batchTask,
      Description = BatchTask.Description batchTask,
      Labels = BatchTask.Labels batchTask,
      Context = map (\<lambda>(k, v). (k, FString v)) (entries (BatchTask.Context batchTask))\<rparr>"

definition worker_result ::
  "(Task \<Rightarrow> string + EstimationResult) \<Rightarrow> BatchTask \<Rightarrow> BatchResult"
where
  "worker_result Estimate batchTask =
     (case Estimate (to_Task batchTask) of
        Inl err \<Rightarrow> \<lparr>BatchResult.Task = batchTask, Result = None, Error = Some err\<rparr>
      | Inr estimation \<Rightarrow>
          \<lparr>BatchResult.Task = batchTask, Result = Some estimation, Error = None\<rparr>)"

text \<open>
  Where a worker stands: blocked at the receive of \<open>range taskCh\<close>; holding task \<open>i\<close> and
  blocked at the send into \<open>rateLimiter\<close>; holding task \<open>i\<close> and a token, up to the send of
  the result; holding a token after that send; returned.
\<close>

datatype worker = Waiting | Acquiring nat | Estimating nat | Releasing | Exited

text \<open>
  The state: the indices the main goroutine has still to send, the content of \<open>taskCh\<close>,
  whether \<open>taskCh\<close> is closed, the workers, the number of tokens in \<open>rateLimiter\<close>, and all
  results sent into \<open>resultCh\<close> so far, in the order of sending, which is the order in which
  the main goroutine appends them to the report.
\<close>

record pool =
  unsent :: "nat list"
  taskCh :: "nat list"
  closed :: bool
  workers :: "worker list"
  rateLimiter :: nat
  resultCh :: "BatchResult list"

definition initial_pool :: "nat \<Rightarrow> BatchTask list \<Rightarrow> pool" where
  "initial_pool maxWorkers tasks =
     \<lparr>unsent = [0..<length tasks], taskCh = [], closed = False,
      workers = replicate maxWorkers Waiting, rateLimiter = 0, resultCh = []\<rparr>"

text \<open>
  One step of one goroutine. Both task and result channel have capacity \<open>len(request.Tasks)\<close>
  and \<open>rateLimiter\<close> has capacity \<open>maxWorkers\<close>: a send needs room.
\<close>

inductive pool_step ::
  "nat \<Rightarrow> (nat \<Rightarrow> Task \<Rightarrow> string + EstimationResult) \<Rightarrow> BatchTask list \<Rightarrow> pool \<Rightarrow> pool \<Rightarrow> bool"
  for maxWorkers est tasks
where
  send_task:
    "unsent s = i # rest \<Longrightarrow> length (taskCh s) < length tasks \<Longrightarrow>
     pool_step maxWorkers est tasks s (s\<lparr>unsent := rest, taskCh := taskCh s @ [i]\<rparr>)"
| close_tasks:
    "unsent s = [] \<Longrightarrow> \<not> closed s \<Longrightarrow>
     pool_step maxWorkers est tasks s (s\<lparr>closed := True\<rparr>)"
| receive_task:
    "w < length (workers s) \<Longrightarrow> workers s ! w = Waiting \<Longrightarrow> taskCh s = i # rest \<Longrightarrow>
     pool_step maxWorkers est tasks s
       (s\<lparr>taskCh := rest, workers := (workers s)[w := Acquiring i]\<rparr>)"
| worker_exit:
    "w < length (workers s) \<Longrightarrow> workers s ! w = Waiting \<Longrightarrow> taskCh s = [] \<Longrightarrow> closed s \<Longrightarrow>
     pool_step maxWorkers est tasks s (s\<lparr>workers := (workers s)[w := Exited]\<rparr>)"
| acquire:
    "w < length (workers s) \<Longrightarrow> workers s ! w = Acquiring i \<Longrightarrow>
     rateLimiter s < maxWorkers \<Longrightarrow>
     pool_step maxWorkers est tasks s
       (s\<lparr>rateLimiter := rateLimiter s + 1, workers := (workers s)[w := Estimating i]\<rparr>)"
| send_result:
    "w < length (workers s) \<Longrightarrow> workers s ! w = Estimating i \<Longrightarrow>
     length (resultCh s) < length tasks \<Longrightarrow>
     pool_step maxWorkers est tasks s
       (s\<lparr>resultCh := resultCh s @ [worker_result (est i) (tasks ! i)],
          workers := (workers s)[w := Releasing]\<rparr>)"
| release:
    "w < length (workers s) \<Longrightarrow> workers s ! w = Releasing \<Longrightarrow>
     pool_step maxWorkers est tasks s
       (s\<lparr>rateLimiter := rateLimiter s - 1, workers := (workers s)[w := Waiting]\<rparr>)"

definition reachable ::
  "nat \<Rightarrow> (nat \<Rightarrow> Task \<Rightarrow> string + EstimationResult) \<Rightarrow> BatchTask list \<Rightarrow> pool \<Rightarrow> bool"
where
  "reachable maxWorkers est tasks s =
     rtranclp (pool_step maxWorkers est tasks) (initial_pool maxWorkers tasks) s"

text \<open>All workers have returned: \<open>wg.Wait()\<close> returns and the result channel is closed.\<close>

definition finished :: "pool \<Rightarrow> bool" where
  "finished s = list_all (\<lambda>w. w = Exited) (workers s)"

text \<open>The gathering loop of the main goroutine and the rest of \<open>ProcessBatch\<close>.\<close>

definition gather :: "BatchReport \<Rightarrow> BatchResult \<Rightarrow> BatchReport" where
  "gather report result =
     (let report = report\<lparr>Results := Results report @ [result]\<rparr>
      in if Error result \<noteq> None
         then report\<lparr>FailedTasks := FailedTasks report + 1\<rparr>
         else report\<lparr>SuccessfulTasks := SuccessfulTasks report + 1\<rparr>)"

definition build_report :: "BatchTask list \<Rightarrow> BatchResult list \<Rightarrow> BatchReport" where
  "build_report tasks received =
     (let report = foldl gather
                     \<lparr>Request = tasks, Results = [], TotalTasks = int (length tasks),
                      SuccessfulTasks = 0, FailedTasks = 0, Statistics = None\<rparr>
                     received
      in report\<lparr>Statistics := Some (calculateStatistics (Results report))\<rparr>)"

text \<open>\<open>ProcessBatch\<close> returns a report: some interleaving ends with this report.\<close>

definition ProcessBatch ::
  "nat \<Rightarrow> (nat \<Rightarrow> Task \<Rightarrow> string + EstimationResult) \<Rightarrow> BatchTask list \<Rightarrow> BatchReport \<Rightarrow> bool"
where
  "ProcessBatch maxWorkers est tasks report \<longleftrightarrow>
     (\<exists>s. reachable maxWorkers est tasks s \<and> finished s
          \<and> report = build_report tasks (resultCh s))"

text \<open>What a worker holds: a task index, a token of the semaphore; and its distance to the end.\<close>

fun held_task :: "worker \<Rightarrow> nat multiset" where
  "held_task (Acquiring i) = {#i#}"
| "held_task (Estimating i) = {#i#}"
| "held_task _ = {#}"

fun token :: "worker \<Rightarrow> nat" where
  "token (Estimating i) = 1"
| "token Releasing = 1"
| "token _ = 0"

fun rank :: "worker \<Rightarrow> nat" where
  "rank Waiting = 1"
| "rank (Acquiring i) = 4"
| "rank (Estimating i) = 3"
| "rank Releasing = 2"
| "rank Exited = 0"

definition pool_measure :: "pool \<Rightarrow> nat" where
  "pool_measure s =
     5 * length (unsent s) + 4 * length (taskCh s) + sum_list (map rank (workers s))
     + (if closed s then 0 else 1)"

text \<open>The result that a worker sends for the task with index \<open>i\<close>.\<close>

definition outcome ::
  "(nat \<Rightarrow> Task \<Rightarrow> string + EstimationResult) \<Rightarrow> BatchTask list \<Rightarrow> nat \<Rightarrow> BatchResult"
where
  "outcome est tasks i = worker_result (est i) (tasks ! i)"

text \<open>
  What holds in every reachable state: there are \<open>maxWorkers\<close> workers; every task is
  unsent, in the task channel, held by a worker, or has its result in the result channel;
  the tokens in the semaphore are those the workers hold; the task channel is closed only
  after the last send; and a worker returns only from a closed, empty task channel.
\<close>

definition pool_invariant ::
  "nat \<Rightarrow> (nat \<Rightarrow> Task \<Rightarrow> string + EstimationResult) \<Rightarrow> BatchTask list \<Rightarrow> pool \<Rightarrow> bool"
where
  "pool_invariant maxWorkers est tasks s \<longleftrightarrow>
     length (workers s) = maxWorkers
     \<and> image_mset (outcome est tasks)
          (mset (unsent s) + mset (taskCh s) + sum_list (map held_task (workers s)))
        + mset (resultCh s)
        = image_mset (outcome est tasks) (mset [0..<length tasks])
     \<and> length (unsent s) + length (taskCh s) + size (sum_list (map held_task (workers s)))
        + length (resultCh s) = length tasks
     \<and> rateLimiter s = sum_list (map token (workers s))
     \<and> (closed s \<longrightarrow> unsent s = [])
     \<and> (Exited \<in> set (workers s) \<longrightarrow> closed s \<and> taskCh s = [])"

lemma sum_list_map_update:
  fixes f :: "'a \<Rightarrow> 'b :: comm_monoid_add"
  shows "w < length ws \<Longrightarrow>
         sum_list (map f (ws[w := x])) + f (ws ! w) = sum_list (map f ws) + f x"
proof (induction ws arbitrary: w)
  case Nil
  then show ?case by simp
next
  case (Cons a ws)
  show ?case
  proof (cases w)
    case 0
    then show ?thesis by (simp add: ac_simps)
  next
    case (Suc v)
    with Cons.prems have "v < length ws" by simp
    from Cons.IH [OF this] Suc show ?thesis
      by (simp add: ac_simps)
  qed
qed

lemma held_update:
  "w < length ws \<Longrightarrow> held_task (ws ! w) = {#} \<Longrightarrow>
   sum_list (map held_task (ws[w := x])) = sum_list (map held_task ws) + held_task x"
  using sum_list_map_update [of w ws held_task x] by simp

lemma held_update_same:
  "w < length ws \<Longrightarrow> held_task (ws ! w) = held_task x \<Longrightarrow>
   sum_list (map held_task (ws[w := x])) = sum_list (map held_task ws)"
  using sum_list_map_update [of w ws held_task x] by simp

lemma held_update_drop:
  "w < length ws \<Longrightarrow> held_task (ws ! w) = {#i#} \<Longrightarrow> held_task x = {#} \<Longrightarrow>
   sum_list (map held_task (ws[w := x])) + {#i#} = sum_list (map held_task ws)"
  using sum_list_map_update [of w ws held_task x] by simp

lemma token_update:
  "w < length ws \<Longrightarrow>
   sum_list (map token (ws[w := x])) + token (ws ! w) = sum_list (map token ws) + token x"
  by (rule sum_list_map_update)

lemma rank_update:
  "w < length ws \<Longrightarrow>
   sum_list (map rank (ws[w := x])) + rank (ws ! w) = sum_list (map rank ws) + rank x"
  by (rule sum_list_map_update)

lemma Exited_update:
  "Exited \<in> set (ws[w := x]) \<Longrightarrow> x \<noteq> Exited \<Longrightarrow> Exited \<in> set ws"
  using set_update_subset_insert [of ws w x] by auto

lemma pool_step_measure:
  "pool_step maxWorkers est tasks s s' \<Longrightarrow> pool_measure s' < pool_measure s"
proof (induction rule: pool_step.induct)
  case (send_task s i rest)
  then show ?case by (simp add: pool_measure_def)
next
  case (close_tasks s)
  then show ?case by (simp add: pool_measure_def)
next
  case (receive_task w s i rest)
  with rank_update [of w "workers s" "Acquiring i"] show ?case
    by (simp add: pool_measure_def)
next
  case (worker_exit w s)
  with rank_update [of w "workers s" Exited] show ?case
    by (simp add: pool_measure_def)
next
  case (acquire w s i)
  with rank_update [of w "workers s" "Estimating i"] show ?case
    by (simp add: pool_measure_def)
next
  case (send_result w s i)
  with rank_update [of w "workers s" Releasing] show ?case
    by (simp add: pool_measure_def)
next
  case (release w s)
  with rank_update [of w "workers s" Waiting] show ?case
    by (simp add: pool_measure_def)
qed

lemma pool_step_terminates: "wf {(s', s). pool_step maxWorkers est tasks s s'}"
proof (rule wf_subset)
  show "wf (measure pool_measure)" by simp
  show "{(s', s). pool_step maxWorkers est tasks s s'} \<subseteq> measure pool_measure"
    by (auto dest: pool_step_measure)
qed


lemma held_replicate_idle:
  "\<forall>w \<in> set ws. held_task w = {#} \<Longrightarrow> sum_list (map held_task ws) = {#}"
  by (induction ws) simp_all

lemma held_replicate_Waiting: "sum_list (map held_task (replicate n Waiting)) = {#}"
  by (induction n) simp_all

lemma token_replicate_Waiting: "sum_list (map token (replicate n Waiting)) = 0"
  by (induction n) simp_all

lemma initial_pool_invariant:
  "pool_invariant maxWorkers est tasks (initial_pool maxWorkers tasks)"
  using held_replicate_Waiting [of maxWorkers] token_replicate_Waiting [of maxWorkers]
  by (simp add: pool_invariant_def initial_pool_def del: map_replicate)

lemma pool_step_invariant:
  assumes inv: "pool_invariant maxWorkers est tasks s"
    and step: "pool_step maxWorkers est tasks s s'"
  shows "pool_invariant maxWorkers est tasks s'"
  using step inv
proof (induction rule: pool_step.induct)
  case (send_task s i rest)
  then show ?case
    by (auto simp: pool_invariant_def)
next
  case (close_tasks s)
  then show ?case
    by (auto simp: pool_invariant_def)
next
  case (receive_task w s i rest)
  then show ?case
    using held_update [of w "workers s" "Acquiring i"]
      token_update [of w "workers s" "Acquiring i"]
      Exited_update [of "workers s" w "Acquiring i"]
    by (auto simp: pool_invariant_def)
next
  case (worker_exit w s)
  then show ?case
    using held_update_same [of w "workers s" Exited]
      token_update [of w "workers s" Exited]
    by (auto simp: pool_invariant_def)
next
  case (acquire w s i)
  then show ?case
    using held_update_same [of w "workers s" "Estimating i"]
      token_update [of w "workers s" "Estimating i"]
      Exited_update [of "workers s" w "Estimating i"]
    by (auto simp: pool_invariant_def)
next
  case (send_result w s i)
  have drop: "sum_list (map held_task ((workers s)[w := Releasing])) + {#i#}
                = sum_list (map held_task (workers s))"
    using send_result.hyps by (intro held_update_drop) simp_all
  then have size: "size (sum_list (map held_task ((workers s)[w := Releasing]))) + 1
                     = size (sum_list (map held_task (workers s)))"
    by (metis size_single size_union)
  from send_result show ?case
    using token_update [of w "workers s" Releasing]
      Exited_update [of "workers s" w Releasing] size
    unfolding pool_invariant_def drop [symmetric]
    by (auto simp: outcome_def)
next
  case (release w s)
  then show ?case
    using held_update_same [of w "workers s" Waiting]
      token_update [of w "workers s" Waiting]
      Exited_update [of "workers s" w Waiting]
    by (auto simp: pool_invariant_def)
qed

lemma reachable_invariant:
  "reachable maxWorkers est tasks s \<Longrightarrow> pool_invariant maxWorkers est tasks s"
  unfolding reachable_def
  by (induction rule: rtranclp_induct)
     (auto intro: initial_pool_invariant pool_step_invariant)

lemma token_less:
  "w < length ws \<Longrightarrow> token (ws ! w) = 0 \<Longrightarrow> sum_list (map token ws) < length ws"
proof (induction ws arbitrary: w)
  case Nil
  then show ?case by simp
next
  case (Cons a ws)
  have bound: "sum_list (map token vs) \<le> length vs" for vs
  proof (induction vs)
    case Nil show ?case by simp
  next
    case (Cons v vs)
    then show ?case by (cases v) simp_all
  qed
  show ?case
  proof (cases w)
    case 0
    with Cons.prems bound [of ws] show ?thesis by simp
  next
    case (Suc v)
    with Cons.prems Cons.IH [of v] show ?thesis
      by (cases a) simp_all
  qed
qed

lemma held_size:
  "w < length ws \<Longrightarrow> size (held_task (ws ! w)) \<le> size (sum_list (map held_task ws))"
proof (induction ws arbitrary: w)
  case Nil
  then show ?case by simp
next
  case (Cons a ws)
  then show ?case
    by (cases w) (simp_all add: trans_le_add2)
qed

text \<open>A pool in which some worker has not returned can take a step.\<close>

lemma pool_progress:
  assumes inv: "pool_invariant maxWorkers est tasks s"
    and unfinished: "\<not> finished s"
  shows "\<exists>s'. pool_step maxWorkers est tasks s s'"
proof -
  from unfinished obtain w where w: "w < length (workers s)" "workers s ! w \<noteq> Exited"
    by (auto simp: finished_def list_all_length)
  show ?thesis
  proof (cases "workers s ! w")
    case Waiting
    show ?thesis
    proof (cases "taskCh s")
      case (Cons i rest)
      with w Waiting show ?thesis
        by (blast intro: pool_step.receive_task)
    next
      case Nil
      show ?thesis
      proof (cases "closed s")
        case True
        with w Waiting Nil show ?thesis
          by (blast intro: pool_step.worker_exit)
      next
        case False
        show ?thesis
        proof (cases "unsent s")
          case Nil
          with False show ?thesis
            by (blast intro: pool_step.close_tasks)
        next
          case (Cons i rest)
          with inv \<open>taskCh s = []\<close> have "length (taskCh s) < length tasks"
            by (auto simp: pool_invariant_def)
          with Cons show ?thesis
            by (blast intro: pool_step.send_task)
        qed
      qed
    qed
  next
    case (Acquiring i)
    with w token_less [of w "workers s"] inv have "rateLimiter s < maxWorkers"
      by (simp add: pool_invariant_def)
    with w Acquiring show ?thesis
      by (blast intro: pool_step.acquire)
  next
    case (Estimating i)
    with w held_size [of w "workers s"] inv have "length (resultCh s) < length tasks"
      by (simp add: pool_invariant_def)
    with w Estimating show ?thesis
      by (blast intro: pool_step.send_result)
  next
    case Releasing
    with w show ?thesis
      by (blast intro: pool_step.release)
  next
    case Exited
    with w show ?thesis by simp
  qed
qed

lemma reachable_step:
  "reachable maxWorkers est tasks s \<Longrightarrow> pool_step maxWorkers est tasks s s' \<Longrightarrow>
   reachable maxWorkers est tasks s'"
  unfolding reachable_def by (rule rtranclp.rtrancl_into_rtrancl)

text \<open>From every reachable state the pool can run to the end.\<close>

lemma reachable_finished:
  "reachable maxWorkers est tasks s \<Longrightarrow>
   \<exists>s'. reachable maxWorkers est tasks s' \<and> finished s'"
proof (induction "pool_measure s" arbitrary: s rule: less_induct)
  case less
  show ?case
  proof (cases "finished s")
    case True
    with less.prems show ?thesis by blast
  next
    case False
    with pool_progress [OF reachable_invariant [OF less.prems]]
    obtain s' where step: "pool_step maxWorkers est tasks s s'" by blast
    from less.hyps [OF pool_step_measure [OF step] reachable_step [OF less.prems step]]
    show ?thesis .
  qed
qed

text \<open>At the end every task has its result in the result channel.\<close>

lemma finished_results:
  assumes reach: "reachable maxWorkers est tasks s" and fin: "finished s"
    and pos: "1 \<le> maxWorkers"
  shows "mset (resultCh s) = mset (map (outcome est tasks) [0..<length tasks])"
proof -
  have inv: "pool_invariant maxWorkers est tasks s"
    by (rule reachable_invariant [OF reach])
  from fin have all: "\<forall>w \<in> set (workers s). w = Exited"
    by (simp add: finished_def list_all_iff)
  from inv pos have "workers s \<noteq> []"
    by (auto simp: pool_invariant_def)
  with all have "Exited \<in> set (workers s)"
    by (cases "workers s") auto
  with inv have "taskCh s = []" "unsent s = []"
    by (auto simp: pool_invariant_def)
  moreover from all have "sum_list (map held_task (workers s)) = {#}"
    by (intro held_replicate_idle) auto
  ultimately show ?thesis
    using inv by (simp add: pool_invariant_def)
qed

lemma foldl_gather:
  "Results (foldl gather report rs) = Results report @ rs
   \<and> SuccessfulTasks (foldl gather report rs)
     = SuccessfulTasks report + int (length (filter (\<lambda>r. Error r = None) rs))
   \<and> FailedTasks (foldl gather report rs)
     = FailedTasks report + int (length (filter (\<lambda>r. Error r \<noteq> None) rs))
   \<and> BatchReport.TotalTasks (foldl gather report rs) = BatchReport.TotalTasks report
   \<and> Request (foldl gather report rs) = Request report"
proof (induction rs arbitrary: report)
  case Nil
  show ?case by simp
next
  case (Cons r rs)
  show ?case
    using Cons.IH [of "gather report r"]
    by (simp add: gather_def Let_def)
qed

lemma build_report_fields:
  "Results (build_report tasks rs) = rs
   \<and> SuccessfulTasks (build_report tasks rs) = int (length (filter (\<lambda>r. Error r = None) rs))
   \<and> FailedTasks (build_report tasks rs) = int (length (filter (\<lambda>r. Error r \<noteq> None) rs))
   \<and> BatchReport.TotalTasks (build_report tasks rs) = int (length tasks)
   \<and> Statistics (build_report tasks rs) = Some (calculateStatistics rs)"
  using foldl_gather
          [of "\<lparr>Request = tasks, Results = [], TotalTasks = int (length tasks),
                SuccessfulTasks = 0, FailedTasks = 0, Statistics = None\<rparr>" rs]
  by (simp add: build_report_def Let_def)

lemma statistics_step_failed: "Error r \<noteq> None \<Longrightarrow> statistics_step loc r = loc"
  by (simp add: statistics_step_def counted_estimation_def)

lemma foldl_statistics_step_filter:
  "foldl statistics_step loc (filter (\<lambda>r. Error r = None) rs) = foldl statistics_step loc rs"
  by (induction rs arbitrary: loc) (simp_all add: statistics_step_failed)

text \<open>The statistics of a list of results are those of its results without error.\<close>

lemma calculateStatistics_filter:
  "calculateStatistics (filter (\<lambda>r. Error r = None) rs) = calculateStatistics rs"
  by (simp add: calculateStatistics_def foldl_statistics_step_filter)

lemma length_filter_mset:
  "mset xs = mset ys \<Longrightarrow> length (filter P xs) = length (filter P ys)"
  by (metis mset_filter size_mset)

lemma outcome_Error:
  "Error (outcome est tasks i) \<noteq> None \<longleftrightarrow> isl (est i (to_Task (tasks ! i)))"
  by (simp add: outcome_def worker_result_def split: sum.splits)

lemma outcome_only_error:
  "Error (outcome est tasks i) \<noteq> None \<Longrightarrow> Result (outcome est tasks i) = None"
  by (simp add: outcome_def worker_result_def split: sum.splits)

lemma outcome_Task: "i < length tasks \<Longrightarrow> BatchResult.Task (outcome est tasks i) = tasks ! i"
  by (simp add: outcome_def worker_result_def split: sum.splits)

text \<open>
  C2. For every list of \<open>N\<close> batch tasks and every pool size of at least one worker:
  no interleaving of the goroutines runs forever, none gets stuck before all workers have
  returned, and \<open>ProcessBatch\<close> returns a report. Every report it can return has
  \<open>TotalTasks = N\<close>, exactly \<open>N\<close> results, one for each task, and
  \<open>SuccessfulTasks + FailedTasks = N\<close> with as many failed tasks as there are failing
  calls of \<open>Estimate\<close>; a failed task has its error set and no result; and the statistics
  are those computed from the results without error alone.
\<close>

theorem C2_batch_results:
  assumes pos: "1 \<le> maxWorkers"
  shows "wf {(s', s). pool_step maxWorkers est tasks s s'}
    \<and> (\<forall>s. reachable maxWorkers est tasks s \<and> \<not> finished s \<longrightarrow>
          (\<exists>s'. pool_step maxWorkers est tasks s s'))
    \<and> (\<exists>report. ProcessBatch maxWorkers est tasks report)
    \<and> (\<forall>report. ProcessBatch maxWorkers est tasks report \<longrightarrow>
          BatchReport.TotalTasks report = int (length tasks)
          \<and> length (Results report) = length tasks
          \<and> SuccessfulTasks report + FailedTasks report = int (length tasks)
          \<and> mset (Results report) = mset (map (outcome est tasks) [0..<length tasks])
          \<and> FailedTasks report
              = int (length (filter (\<lambda>i. isl (est i (to_Task (tasks ! i)))) [0..<length tasks]))
          \<and> (\<forall>r \<in> set (Results report). Error r \<noteq> None \<longrightarrow> Result r = None)
          \<and> Statistics report
              = Some (calculateStatistics (filter (\<lambda>r. Error r = None) (Results report))))"
proof (intro conjI allI impI)
  show "wf {(s', s). pool_step maxWorkers est tasks s s'}"
    by (rule pool_step_terminates)
next
  fix s assume "reachable maxWorkers est tasks s \<and> \<not> finished s"
  then show "\<exists>s'. pool_step maxWorkers est tasks s s'"
    using pool_progress reachable_invariant by blast
next
  have "reachable maxWorkers est tasks (initial_pool maxWorkers tasks)"
    by (simp add: reachable_def)
  from reachable_finished [OF this] show "\<exists>report. ProcessBatch maxWorkers est tasks report"
    unfolding ProcessBatch_def by blast
next
  fix report assume "ProcessBatch maxWorkers est tasks report"
  then obtain s where s: "reachable maxWorkers est tasks s" "finished s"
    and report: "report = build_report tasks (resultCh s)"
    unfolding ProcessBatch_def by blast
  let ?rs = "resultCh s"
  let ?os = "map (outcome est tasks) [0..<length tasks]"
  have ms: "mset ?rs = mset ?os"
    by (rule finished_results [OF s pos])
  have len: "length ?rs = length tasks"
    using ms by (metis length_map length_upt mset_eq_length minus_nat.diff_0)
  have split: "length (filter (\<lambda>r. Error r = None) ?rs)
                 + length (filter (\<lambda>r. Error r \<noteq> None) ?rs) = length ?rs"
    using sum_length_filter_compl [of "\<lambda>r. Error r = None" ?rs] by simp
  have failed: "length (filter (\<lambda>r. Error r \<noteq> None) ?rs)
                  = length (filter (\<lambda>i. isl (est i (to_Task (tasks ! i)))) [0..<length tasks])"
  proof -
    have "filter (\<lambda>r. Error r \<noteq> None) ?os
            = map (outcome est tasks)
                (filter (\<lambda>i. isl (est i (to_Task (tasks ! i)))) [0..<length tasks])"
      unfolding filter_map comp_def outcome_Error ..
    then show ?thesis
      using length_filter_mset [OF ms, of "\<lambda>r. Error r \<noteq> None"]
      by (simp only: length_map)
  qed
  have only: "\<forall>r \<in> set ?rs. Error r \<noteq> None \<longrightarrow> Result r = None"
  proof
    fix r assume "r \<in> set ?rs"
    then have "r \<in> set ?os"
      using ms by (metis mset_eq_setD)
    then show "Error r \<noteq> None \<longrightarrow> Result r = None"
      by (auto simp: outcome_only_error)
  qed
  show "BatchReport.TotalTasks report = int (length tasks)"
    and "length (Results report) = length tasks"
    and "SuccessfulTasks report + FailedTasks report = int (length tasks)"
    and "mset (Results report) = mset ?os"
    and "FailedTasks report
           = int (length (filter (\<lambda>i. isl (est i (to_Task (tasks ! i)))) [0..<length tasks]))"
    and "\<forall>r \<in> set (Results report). Error r \<noteq> None \<longrightarrow> Result r = None"
    and "Statistics report
           = Some (calculateStatistics (filter (\<lambda>r. Error r = None) (Results report)))"
    using build_report_fields [of tasks ?rs] ms len split failed only
    unfolding report by (simp_all add: calculateStatistics_filter)
qed


definition example_batch :: "BatchTask list" where
  "example_batch =
     [example_batch_task,
      example_batch_task\<lparr>ID := ''TASK-002'', Title := ''Fix database crash''\<rparr>,
      example_batch_task\<lparr>ID := ''TASK-003'', Title := ''Implement search results''\<rparr>]"

text \<open>The provider fails for the second task of the batch and answers for the others.\<close>

definition example_est :: "nat \<Rightarrow> Task \<Rightarrow> string + EstimationResult" where
  "example_est i task =
     (if i = 1 then Inl ''AI estimation failed''
      else Inr \<lparr>EstimationResult.Task = task, Estimation = Some (estimate_of 8),
                SimilarTasks = [], Method = ''ai'', DataSource = ''openai'',
                DatasetStats = None, SimilarityContext = None\<rparr>)"

theorem C2_batch_results_witness:
  "(1 :: nat) \<le> 2
   \<and> (\<exists>report. ProcessBatch 2 example_est example_batch report
         \<and> BatchReport.TotalTasks report = 3
         \<and> length (Results report) = 3
         \<and> SuccessfulTasks report = 2
         \<and> FailedTasks report = 1)"
proof -
  have pos: "(1 :: nat) \<le> 2" by simp
  have len: "length example_batch = 3"
    by (simp add: example_batch_def)
  have failing: "filter (\<lambda>i. isl (example_est i (to_Task (example_batch ! i)))) [0..<3] = [1]"
    by code_simp
  from C2_batch_results [OF pos, of example_est example_batch]
  obtain report where run: "ProcessBatch 2 example_est example_batch report"
    and props: "BatchReport.TotalTasks report = int (length example_batch)"
      "length (Results report) = length example_batch"
      "SuccessfulTasks report + FailedTasks report = int (length example_batch)"
      "FailedTasks report
         = int (length (filter (\<lambda>i. isl (example_est i (to_Task (example_batch ! i))))
                          [0..<length example_batch]))"
    by blast
  from props have "BatchReport.TotalTasks report = 3" "length (Results report) = 3"
    "SuccessfulTasks report = 2" "FailedTasks report = 1"
    unfolding len failing by simp_all
  with run pos show ?thesis by blast
qed

section \<open>The dataset enhancer (estimator.go)\<close>















































lemma exchange_sort_Nil [simp]: "exchange_sort swap [] = []"
  using length_exchange_sort [of swap "[]"] by (metis length_0_conv)













end
